theory Spec2Isabelle
  imports Complex_Main
begin

section \<open>Strings and numbers of the platform\<close>

text \<open>
  The VM service layer (\<^verbatim>\<open>vmUtils\<close>, the file that defines \<^verbatim>\<open>mockVMs\<close>,
  \<^verbatim>\<open>handleVMAction\<close>, \<^verbatim>\<open>convertApiVMToAppFormat\<close>, \<^verbatim>\<open>normalizeVMStatus\<close> and
  \<^verbatim>\<open>loadUserVMs\<close>) is TypeScript. Its strings are modelled as \<open>string\<close>, its integral
  numbers as \<open>int\<close>.

  \<^verbatim>\<open>String.prototype.toLowerCase\<close> is modelled on the ASCII letters: \<open>A\<close>..\<open>Z\<close> go to
  \<open>a\<close>..\<open>z\<close> and every other character is kept. The platform function also folds letters
  outside ASCII, but it sends no character outside ASCII to one of the letters that the
  labels compared in this file are made of (the only characters outside ASCII whose
  lower case contains an ASCII letter are U+212A, which gives \<open>k\<close>, and U+0130, which gives
  \<open>i\<close> followed by a combining mark), so every comparison \<^verbatim>\<open>s.toLowerCase() === label\<close>
  below has the value the platform gives it.
\<close>

definition toLowerChar :: "char \<Rightarrow> char" where
  "toLowerChar c =
     (case map_of (zip ''ABCDEFGHIJKLMNOPQRSTUVWXYZ'' ''abcdefghijklmnopqrstuvwxyz'') c of
        Some d \<Rightarrow> d
      | None \<Rightarrow> c)"

definition toLowerCase :: "string \<Rightarrow> string" where
  "toLowerCase s = map toLowerChar s"

text \<open>
  Two strings are equal up to case when they have the same length and agree, position by
  position, up to the case of a letter. This is the reading of "case-insensitively equals"
  used by the statements below; it is a relation between two strings, and is not how the
  code compares (the code lowers one side and tests \<^verbatim>\<open>===\<close>).
\<close>

definition ci_equal :: "string \<Rightarrow> string \<Rightarrow> bool" where
  "ci_equal a b = list_all2 (\<lambda>c d. toLowerChar c = toLowerChar d) a b"

text \<open>
  \<^verbatim>\<open>a || b\<close> on an optional string: \<^verbatim>\<open>undefined\<close> and the empty string are falsy, so
  the right operand is taken for both.
\<close>

definition truthy :: "string option \<Rightarrow> bool" where
  "truthy v = (case v of None \<Rightarrow> False | Some s \<Rightarrow> s \<noteq> [])"

definition or_else :: "string option \<Rightarrow> string \<Rightarrow> string" where
  "or_else v d = (case v of None \<Rightarrow> d | Some s \<Rightarrow> if s = [] then d else s)"

text \<open>
  The decimal rendering of an integral number inside a template literal, and of
  \<^verbatim>\<open>NaN\<close> (\<open>None\<close>). Integral doubles below \<open>10^21\<close> in magnitude print all their
  digits; the quantities printed here are hours and minutes of a time difference and stay
  far below that.
\<close>

fun digits :: "nat \<Rightarrow> string" where
  "digits n =
     (if n < 10 then [''0123456789'' ! n]
      else digits (n div 10) @ [''0123456789'' ! (n mod 10)])"

declare digits.simps [simp del]

definition numToString :: "int option \<Rightarrow> string" where
  "numToString v =
     (case v of
        None \<Rightarrow> ''NaN''
      | Some i \<Rightarrow> if i < 0 then ''-'' @ digits (nat (- i)) else digits (nat i))"

text \<open>
  The remainder operator \<^verbatim>\<open>%\<close> takes the sign of the dividend, and \<^verbatim>\<open>Math.floor\<close>
  of a quotient rounds towards minus infinity, which is \<open>div\<close> on \<open>int\<close>. Both are exact
  on the doubles that occur here: differences of two time values, which are integers
  below \<open>2^53\<close> in magnitude.
\<close>

definition js_rem :: "int \<Rightarrow> int \<Rightarrow> int" where
  "js_rem a b = sgn a * (\<bar>a\<bar> mod \<bar>b\<bar>)"

section \<open>The data model\<close>

text \<open>
  \<^verbatim>\<open>VMStatus\<close> is a union of six string literals. The type is erased when the program
  runs and a value of it is a string; the loader stores a string of the server in a
  \<^verbatim>\<open>status\<close> field with an unchecked cast, so the field is a \<open>string\<close> here and the six
  values are a set of strings.
\<close>

definition VMStatus :: "string set" where
  "VMStatus = {''Running'', ''Stopped'', ''Starting'', ''Stopping'', ''Paused'', ''Error''}"

record VMResources =
  cpu :: int
  memory :: int
  disk :: int
  network :: int

record VirtualMachine =
  vm_id :: string
  vm_name :: string
  status :: string
  os :: string
  assigned_user :: string
  uptime :: string
  health :: string
  ip_address :: string
  last_snapshot :: "string option"
  resources :: VMResources
  user_name :: "string option"
  user_email :: "string option"
  guacamole_url :: "string option"
  instance_id :: "string option"
  created_at :: "string option"

section \<open>The status normalizer\<close>

definition normalizeVMStatus :: "string \<Rightarrow> string" where
  "normalizeVMStatus st =
     (let lowercaseStatus = toLowerCase st in
      if lowercaseStatus = ''running'' then ''Running''
      else if lowercaseStatus = ''stopped'' then ''Stopped''
      else if lowercaseStatus = ''starting'' then ''Starting''
      else if lowercaseStatus = ''stopping'' then ''Stopping''
      else if lowercaseStatus = ''paused'' then ''Paused''
      else ''Error'')"

section \<open>The remote service, the notification sink and the world\<close>

text \<open>
  A failure that travels through \<^verbatim>\<open>throw\<close> or a rejected promise: its own message and
  what the handlers read from it, \<^verbatim>\<open>error.response?.data?.message\<close> (\<open>None\<close> when any
  link of the chain is missing). \<^verbatim>\<open>new Error(m)\<close> has no \<^verbatim>\<open>response\<close>.
\<close>

record js_error =
  err_message :: string
  server_message :: "string option"

definition new_Error :: "string \<Rightarrow> js_error" where
  "new_Error m = \<lparr>err_message = m, server_message = None\<rparr>"

text \<open>
  The module \<^verbatim>\<open>vmService\<close> is imported by the file and is a parameter here: each of
  its operations either rejects with a failure (\<open>Inl\<close>) or resolves to a response (\<open>Inr\<close>).
  An action's response is an object of which the dispatcher reads \<^verbatim>\<open>message\<close> and
  \<^verbatim>\<open>URL\<close>; the status response has the keys \<^verbatim>\<open>windows\<close> and \<^verbatim>\<open>linux\<close>; the response
  of \<^verbatim>\<open>getAllVMs\<close> is described by what the loader tests of it:
  \<^verbatim>\<open>response && response.vms && Array.isArray(response.vms)\<close>.
\<close>

record action_response =
  message :: "string option"
  URL :: "string option"

record status_response =
  windows :: string
  linux :: string

text \<open>
  The mapper's parameter is \<^verbatim>\<open>apiVM: any\<close>. What it is given is \<^verbatim>\<open>null\<close> or
  \<^verbatim>\<open>undefined\<close> (\<open>Nullish\<close>), or an object with the fields the mapper reads.
  \<open>api_id\<close> is the text that \<^verbatim>\<open>${apiVM.id}\<close> prints. \<open>api_status\<close> is the string under
  \<^verbatim>\<open>status\<close>, and \<open>None\<close> when the object has no \<^verbatim>\<open>status\<close> or one that is not a
  string: \<^verbatim>\<open>apiVM.status.toLowerCase()\<close> then throws a \<^verbatim>\<open>TypeError\<close>, as reading a
  property of \<^verbatim>\<open>null\<close> does. The message of the \<^verbatim>\<open>TypeError\<close> is the engine's and no
  handler of this file reads it.
\<close>

record ApiVM =
  api_id :: string
  api_instance_id :: "string option"
  instance_os :: string
  employee_id :: string
  api_status :: "string option"
  updated_at :: string
  api_user_name :: "string option"
  api_user_email :: "string option"
  api_guacamole_url :: "string option"
  api_created_at :: "string option"

datatype any_vm =
    Nullish
  | Object ApiVM

definition TypeError :: js_error where
  "TypeError = \<lparr>err_message = ''TypeError'', server_message = None\<rparr>"

datatype vms_field =
    VmsFalsy
  | VmsNotArray
  | VmsArray "any_vm list"

datatype allVMs_response =
    FalsyResponse
  | Body vms_field

record vmService =
  startVM :: "string \<Rightarrow> string \<Rightarrow> js_error + action_response"
  stopVM :: "string \<Rightarrow> string \<Rightarrow> js_error + action_response"
  restartVM :: "string \<Rightarrow> string \<Rightarrow> js_error + action_response"
  getVMStatus :: "string \<Rightarrow> js_error + status_response"
  getAllVMs :: "js_error + allVMs_response"

datatype remote_call =
    StartVM string string
  | StopVM string string
  | RestartVM string string
  | GetVMStatus string
  | GetAllVMs

text \<open>
  \<^verbatim>\<open>toast(title, {description})\<close> and \<^verbatim>\<open>toast.error(title, {description})\<close>; the
  description is \<open>None\<close> when the call passes none.
\<close>

datatype toast =
    Toast string "string option"
  | ToastError string "string option"

text \<open>
  The platform: the value of the \<open>n\<close>-th \<^verbatim>\<open>new Date().getTime()\<close> and of the \<open>n\<close>-th
  \<^verbatim>\<open>Math.random()\<close> of a run, and the time value of \<^verbatim>\<open>new Date(s)\<close> for a string
  (\<open>None\<close> is \<^verbatim>\<open>NaN\<close>, an invalid date). \<^verbatim>\<open>Math.random()\<close> returns a number in
  \<open>[0, 1)\<close>, a real number here, and the products with 60, 50 and 40 are exact. For the
  largest double below 1 the rounded products are still below 60, 50 and 40, so the floor
  that the platform computes is one of the values that the floor of an exact product
  takes on \<open>[0, 1)\<close>: what holds here for every draw holds for the platform's.
\<close>

record env =
  date_now :: "nat \<Rightarrow> int"
  math_random :: "nat \<Rightarrow> real"
  parseDate :: "string \<Rightarrow> int option"

definition valid_random :: "env \<Rightarrow> bool" where
  "valid_random e = (\<forall>n. 0 \<le> math_random e n \<and> math_random e n < 1)"

text \<open>
  Everything a call can change or leave a trace in: the store of the
  \<^verbatim>\<open>VirtualMachine\<close> objects (an object's reference is its index; an object literal is
  allocated at the end), the number of clock readings and random draws so far, the
  remote calls made, and the notifications and \<^verbatim>\<open>console.error\<close> lines emitted (a line
  is recorded by its first argument).
\<close>

record world =
  heap :: "VirtualMachine list"
  clock_reads :: nat
  random_draws :: nat
  calls :: "remote_call list"
  toasts :: "toast list"
  logs :: "string list"

section \<open>The mock data\<close>

text \<open>
  \<^verbatim>\<open>mockVMs\<close> is a module-level constant array of two objects: the array holds the
  references 0 and 1, and the store of the initial world holds the two literals there.
\<close>

definition mockVMs :: "nat list" where
  "mockVMs = [0, 1]"

definition mock_windows :: VirtualMachine where
  "mock_windows =
     \<lparr>vm_id = ''vm-001'', vm_name = ''Windows Development'', status = ''Running'',
      os = ''Windows'', assigned_user = ''emp-001'', uptime = ''12h 45m'', health = ''Good'',
      ip_address = ''10.0.0.15'', last_snapshot = Some ''2025-04-15 09:30'',
      resources = \<lparr>cpu = 45, memory = 60, disk = 30, network = 25\<rparr>,
      user_name = None, user_email = None, guacamole_url = None, instance_id = None,
      created_at = None\<rparr>"

definition mock_linux :: VirtualMachine where
  "mock_linux =
     \<lparr>vm_id = ''vm-002'', vm_name = ''Linux Server'', status = ''Stopped'',
      os = ''Linux'', assigned_user = ''emp-002'', uptime = ''0h 0m'', health = ''Good'',
      ip_address = ''10.0.0.16'', last_snapshot = Some ''2025-04-14 17:15'',
      resources = \<lparr>cpu = 0, memory = 0, disk = 15, network = 0\<rparr>,
      user_name = None, user_email = None, guacamole_url = None, instance_id = None,
      created_at = None\<rparr>"

definition initial_world :: world where
  "initial_world =
     \<lparr>heap = [mock_windows, mock_linux], clock_reads = 0, random_draws = 0,
      calls = [], toasts = [], logs = []\<rparr>"

text \<open>The objects behind a list of references.\<close>

definition deref :: "world \<Rightarrow> nat list \<Rightarrow> VirtualMachine list" where
  "deref w rs = map (\<lambda>r. heap w ! r) rs"

section \<open>The action dispatcher\<close>

text \<open>
  The \<^verbatim>\<open>switch\<close> is the body of the \<^verbatim>\<open>try\<close>: \<open>tried\<close> is what it yields, the response
  of the one remote call it makes or the failure thrown (by the call, or by the
  \<^verbatim>\<open>default\<close> branch before any call). The \<^verbatim>\<open>catch\<close> logs, notifies and throws the
  failure it caught.
\<close>

definition handleVMAction ::
  "vmService \<Rightarrow> string \<Rightarrow> string \<Rightarrow> string \<Rightarrow> string \<Rightarrow> world
     \<Rightarrow> (js_error + action_response) \<times> world" where
  "handleVMAction svc vmId action instanceOs employeeId w =
     (let a = toLowerCase action;
          tried =
            (if a = ''start'' then
               (startVM svc instanceOs employeeId,
                w\<lparr>calls := calls w @ [StartVM instanceOs employeeId]\<rparr>)
             else if a = ''stop'' then
               (stopVM svc instanceOs employeeId,
                w\<lparr>calls := calls w @ [StopVM instanceOs employeeId]\<rparr>)
             else if a = ''restart'' \<or> a = ''reset'' then
               (restartVM svc instanceOs employeeId,
                w\<lparr>calls := calls w @ [RestartVM instanceOs employeeId]\<rparr>)
             else (Inl (new_Error (''Unsupported action: '' @ action)), w));
          w1 = snd tried
      in case fst tried of
           Inr response \<Rightarrow>
             (Inr response,
              w1\<lparr>toasts := toasts w1 @
                 [Toast (''VM '' @ action @ '' initiated'')
                    (Some (or_else (message response)
                       (''The VM is now being '' @ toLowerCase action @ ''ed.'')))]\<rparr>)
         | Inl error \<Rightarrow>
             (Inl error,
              w1\<lparr>logs := logs w1 @ [''Error performing VM '' @ action @ '':''],
                 toasts := toasts w1 @
                 [ToastError (''VM '' @ action @ '' Failed'')
                    (Some (or_else (server_message error)
                       (''Failed to '' @ toLowerCase action @ '' VM.'')))]\<rparr>))"

section \<open>The mapper from an API record\<close>

text \<open>
  The statements of the function in their order: the two dates are built first (one
  reading of the clock), then \<^verbatim>\<open>apiVM.status.toLowerCase()\<close> is evaluated, which is
  where a record without a status string throws; the random draws are made last, while
  the object literal is built.
\<close>

definition convertApiVMToAppFormat ::
  "env \<Rightarrow> any_vm \<Rightarrow> world \<Rightarrow> (js_error + VirtualMachine) \<times> world" where
  "convertApiVMToAppFormat e apiVM w =
     (case apiVM of
        Nullish \<Rightarrow> (Inl TypeError, w)
      | Object r \<Rightarrow>
          (let updatedAt = parseDate e (updated_at r);
               now = date_now e (clock_reads w);
               w1 = w\<lparr>clock_reads := clock_reads w + 1\<rparr>
           in case api_status r of
                None \<Rightarrow> (Inl TypeError, w1)
              | Some st \<Rightarrow>
                  (let uptimeMs =
                         (if toLowerCase st = ''running''
                          then map_option (\<lambda>t. now - t) updatedAt
                          else Some 0);
                       hours = map_option (\<lambda>ms. ms div (1000 * 60 * 60)) uptimeMs;
                       minutes =
                         map_option (\<lambda>ms. js_rem ms (1000 * 60 * 60) div (1000 * 60)) uptimeMs;
                       uptime_text = numToString hours @ ''h '' @ numToString minutes @ ''m'';
                       isRunning = (toLowerCase st = ''running'');
                       normalizedStatus = normalizeVMStatus st;
                       k = random_draws w1
                   in (Inr
                        \<lparr>vm_id = or_else (api_instance_id r) (''vm-'' @ api_id r),
                         vm_name = instance_os r @ '' VM'',
                         status = normalizedStatus,
                         os = instance_os r,
                         assigned_user = employee_id r,
                         uptime = uptime_text,
                         health = ''Good'',
                         ip_address = ''10.0.0.15'',
                         last_snapshot = None,
                         resources =
                           \<lparr>cpu = (if isRunning then \<lfloor>math_random e k * 60\<rfloor> + 20 else 0),
                            memory =
                              (if isRunning then \<lfloor>math_random e (k + 1) * 50\<rfloor> + 30 else 0),
                            disk = \<lfloor>math_random e (if isRunning then k + 2 else k) * 40\<rfloor> + 10,
                            network =
                              (if isRunning then \<lfloor>math_random e (k + 3) * 40\<rfloor> + 5 else 0)\<rparr>,
                         user_name = api_user_name r,
                         user_email = api_user_email r,
                         guacamole_url = api_guacamole_url r,
                         instance_id = api_instance_id r,
                         created_at = api_created_at r\<rparr>,
                       w1\<lparr>random_draws := k + (if isRunning then 4 else 1)\<rparr>))))"

text \<open>
  \<^verbatim>\<open>response.vms.map(vm => convertApiVMToAppFormat(vm))\<close>, from left to right; the first
  element on which the mapper throws ends the \<^verbatim>\<open>map\<close> with that failure.
\<close>

fun map_convert ::
  "env \<Rightarrow> any_vm list \<Rightarrow> world \<Rightarrow> (js_error + VirtualMachine list) \<times> world" where
  "map_convert e [] w = (Inr [], w)"
| "map_convert e (apiVM # rest) w =
     (case convertApiVMToAppFormat e apiVM w of
        (Inl error, w1) \<Rightarrow> (Inl error, w1)
      | (Inr vm, w1) \<Rightarrow>
          (case map_convert e rest w1 of
             (Inl error, w2) \<Rightarrow> (Inl error, w2)
           | (Inr vms, w2) \<Rightarrow> (Inr (vm # vms), w2)))"

text \<open>An element on which the mapper returns: an object with a status string.\<close>

definition has_status :: "any_vm \<Rightarrow> bool" where
  "has_status apiVM = (case apiVM of Nullish \<Rightarrow> False | Object r \<Rightarrow> api_status r \<noteq> None)"

section \<open>The loader\<close>

text \<open>
  The callback of \<^verbatim>\<open>mockVMs.map\<close> in the single-user branch, as the object it leaves
  behind: it assigns to fields of the element it is given and returns that element.
\<close>

definition overlay :: "status_response \<Rightarrow> VirtualMachine \<Rightarrow> VirtualMachine" where
  "overlay statusResponse vm =
     (let vm1 =
            (if toLowerCase (os vm) = ''windows'' then vm\<lparr>status := windows statusResponse\<rparr>
             else if toLowerCase (os vm) = ''linux'' then vm\<lparr>status := linux statusResponse\<rparr>
             else vm)
      in if status vm1 = ''Stopped''
         then vm1\<lparr>resources := (resources vm1)\<lparr>cpu := 0, memory := 0, network := 0\<rparr>,
                  uptime := ''0h 0m''\<rparr>
         else vm1)"

text \<open>
  The callback run over an array of references: each object is overwritten where it
  stands in the store, and the array returned holds the same references.
\<close>

fun map_in_place ::
  "(VirtualMachine \<Rightarrow> VirtualMachine) \<Rightarrow> nat list \<Rightarrow> VirtualMachine list \<Rightarrow> VirtualMachine list" where
  "map_in_place f [] h = h"
| "map_in_place f (r # rs) h = map_in_place f rs (h[r := f (h ! r)])"

text \<open>
  \<^verbatim>\<open>if (employeeId)\<close> takes the single-user branch for a non-empty string; a missing
  argument and the empty string take the other one. Every path of the function ends in a
  \<^verbatim>\<open>return\<close>: the two \<^verbatim>\<open>catch\<close> blocks return \<^verbatim>\<open>mockVMs\<close>. The inner
  \<^verbatim>\<open>try\<close> holds the request of the list and the \<^verbatim>\<open>map\<close> over it, so its \<^verbatim>\<open>catch\<close>
  takes a rejected request and a mapper that throws alike. The objects that the mapper
  built before it threw are referenced by nothing and are not kept in the store.
\<close>

definition loadUserVMs ::
  "env \<Rightarrow> vmService \<Rightarrow> string option \<Rightarrow> world \<Rightarrow> (js_error + nat list) \<times> world" where
  "loadUserVMs e svc employeeId w =
     (if truthy employeeId then
        (let w1 = w\<lparr>calls := calls w @ [GetVMStatus (the employeeId)]\<rparr> in
         case getVMStatus svc (the employeeId) of
           Inr statusResponse \<Rightarrow>
             (Inr mockVMs,
              w1\<lparr>heap := map_in_place (overlay statusResponse) mockVMs (heap w1)\<rparr>)
         | Inl error \<Rightarrow>
             (Inr mockVMs,
              w1\<lparr>logs := logs w1 @ [''Error loading VMs:''],
                 toasts := toasts w1 @
                 [ToastError ''Error Loading VMs''
                    (Some (or_else (server_message error)
                       ''Failed to load virtual machines.''))]\<rparr>))
      else
        (let w1 = w\<lparr>calls := calls w @ [GetAllVMs]\<rparr> in
         case getAllVMs svc of
           Inr (Body (VmsArray vms)) \<Rightarrow>
             (case map_convert e vms w1 of
                (Inr objs, w2) \<Rightarrow>
                  (Inr [length (heap w2) ..< length (heap w2) + length objs],
                   w2\<lparr>heap := heap w2 @ objs\<rparr>)
              | (Inl error, w2) \<Rightarrow>
                  (Inr mockVMs,
                   w2\<lparr>logs := logs w2 @ [''Error fetching all VMs:''],
                      toasts := toasts w2 @ [ToastError ''Failed to fetch VMs data'' None]\<rparr>))
         | Inr _ \<Rightarrow>
             (Inr mockVMs,
              w1\<lparr>logs := logs w1 @ [''Unexpected API response format:''],
                 toasts := toasts w1 @ [ToastError ''Unexpected API response format'' None]\<rparr>)
         | Inl error \<Rightarrow>
             (Inr mockVMs,
              w1\<lparr>logs := logs w1 @ [''Error fetching all VMs:''],
                 toasts := toasts w1 @ [ToastError ''Failed to fetch VMs data'' None]\<rparr>)))"

text \<open>
  What the module never changes of its two mock objects: they stay in the store at the
  references 0 and 1, and their \<^verbatim>\<open>os\<close> fields are never assigned.
\<close>

definition mock_inv :: "world \<Rightarrow> bool" where
  "mock_inv w = (2 \<le> length (heap w) \<and> os (heap w ! 0) = ''Windows'' \<and> os (heap w ! 1) = ''Linux'')"

section \<open>Example inputs\<close>

text \<open>
  A service whose start succeeds, whose stop fails without a message of the server and
  whose restart fails with one; its status response is
  \<^verbatim>\<open>{windows:'Stopped', linux:'Running'}\<close> and its list response is \<^verbatim>\<open>{}\<close>.
\<close>

definition example_service :: vmService where
  "example_service =
     \<lparr>startVM = (\<lambda>instanceOs employeeId. Inr \<lparr>message = Some ''started'', URL = Some ''https://desk/1''\<rparr>),
      stopVM = (\<lambda>instanceOs employeeId. Inl \<lparr>err_message = ''Network Error'', server_message = None\<rparr>),
      restartVM = (\<lambda>instanceOs employeeId.
         Inl \<lparr>err_message = ''Request failed with status code 500'', server_message = Some ''no capacity''\<rparr>),
      getVMStatus = (\<lambda>employeeId. Inr \<lparr>windows = ''Stopped'', linux = ''Running''\<rparr>),
      getAllVMs = Inr (Body VmsFalsy)\<rparr>"

text \<open>
  A platform whose clock starts at 1762000000000 ms and whose random draws alternate
  between 0.5 and 0.99, and three API records: one running since 2 h 5 min before the
  first clock reading, one stopped with a date that does not parse, and one without a
  \<^verbatim>\<open>status\<close>.
\<close>

definition example_env :: env where
  "example_env =
     \<lparr>date_now = (\<lambda>n. 1762000000000 + int n),
      math_random = (\<lambda>n. if even n then 1 / 2 else 99 / 100),
      parseDate = (\<lambda>s. if s = ''2025-11-01T10:21:40.000Z'' then Some 1761992500000 else None)\<rparr>"

definition example_running :: ApiVM where
  "example_running =
     \<lparr>api_id = ''7'', api_instance_id = Some ''i-0abc'', instance_os = ''Windows'',
      employee_id = ''emp-001'', api_status = Some ''RUNNING'',
      updated_at = ''2025-11-01T10:21:40.000Z'',
      api_user_name = Some ''Dana'', api_user_email = None, api_guacamole_url = None,
      api_created_at = None\<rparr>"

definition example_stopped :: ApiVM where
  "example_stopped =
     \<lparr>api_id = ''8'', api_instance_id = None, instance_os = ''Linux'',
      employee_id = ''emp-002'', api_status = Some ''stopped'',
      updated_at = ''yesterday'',
      api_user_name = None, api_user_email = None, api_guacamole_url = None,
      api_created_at = None\<rparr>"

definition example_no_status :: ApiVM where
  "example_no_status =
     \<lparr>api_id = ''1'', api_instance_id = None, instance_os = ''Linux'',
      employee_id = ''emp-003'', api_status = None,
      updated_at = ''2025-11-01T10:21:40.000Z'',
      api_user_name = None, api_user_email = None, api_guacamole_url = None,
      api_created_at = None\<rparr>"

text \<open>
  A service whose status response is in another casing and whose list request fails,
  one whose status request fails and whose list request returns two records, and one
  whose list holds a single record without a \<^verbatim>\<open>status\<close>.
\<close>

definition example_service2 :: vmService where
  "example_service2 =
     \<lparr>startVM = (\<lambda>instanceOs employeeId. Inr \<lparr>message = None, URL = None\<rparr>),
      stopVM = (\<lambda>instanceOs employeeId. Inr \<lparr>message = None, URL = None\<rparr>),
      restartVM = (\<lambda>instanceOs employeeId. Inr \<lparr>message = None, URL = None\<rparr>),
      getVMStatus = (\<lambda>employeeId. Inr \<lparr>windows = ''stopped'', linux = ''RUNNING''\<rparr>),
      getAllVMs = Inl \<lparr>err_message = ''Network Error'', server_message = None\<rparr>\<rparr>"

definition example_service3 :: vmService where
  "example_service3 =
     \<lparr>startVM = (\<lambda>instanceOs employeeId. Inr \<lparr>message = None, URL = None\<rparr>),
      stopVM = (\<lambda>instanceOs employeeId. Inr \<lparr>message = None, URL = None\<rparr>),
      restartVM = (\<lambda>instanceOs employeeId. Inr \<lparr>message = None, URL = None\<rparr>),
      getVMStatus = (\<lambda>employeeId. Inl \<lparr>err_message = ''Network Error'', server_message = None\<rparr>),
      getAllVMs = Inr (Body (VmsArray [Object example_running, Object example_stopped]))\<rparr>"

definition example_service4 :: vmService where
  "example_service4 =
     \<lparr>startVM = (\<lambda>instanceOs employeeId. Inr \<lparr>message = None, URL = None\<rparr>),
      stopVM = (\<lambda>instanceOs employeeId. Inr \<lparr>message = None, URL = None\<rparr>),
      restartVM = (\<lambda>instanceOs employeeId. Inr \<lparr>message = None, URL = None\<rparr>),
      getVMStatus = (\<lambda>employeeId. Inl \<lparr>err_message = ''Network Error'', server_message = None\<rparr>),
      getAllVMs = Inr (Body (VmsArray [Object example_no_status]))\<rparr>"

section \<open>Facts about strings\<close>

lemma ci_equal_toLowerCase: "ci_equal a b \<longleftrightarrow> toLowerCase a = toLowerCase b"
proof -
  have "list_all2 (\<lambda>c d. toLowerChar c = toLowerChar d) a b
          \<longleftrightarrow> list_all2 (=) (map toLowerChar a) (map toLowerChar b)"
    by (simp add: list.rel_map)
  then show ?thesis
    by (simp add: ci_equal_def toLowerCase_def list.rel_eq)
qed

lemma ci_equal_labels:
  "ci_equal s ''running'' \<longleftrightarrow> toLowerCase s = ''running''"
  "ci_equal s ''stopped'' \<longleftrightarrow> toLowerCase s = ''stopped''"
  "ci_equal s ''starting'' \<longleftrightarrow> toLowerCase s = ''starting''"
  "ci_equal s ''stopping'' \<longleftrightarrow> toLowerCase s = ''stopping''"
  "ci_equal s ''paused'' \<longleftrightarrow> toLowerCase s = ''paused''"
  "ci_equal s ''start'' \<longleftrightarrow> toLowerCase s = ''start''"
  "ci_equal s ''stop'' \<longleftrightarrow> toLowerCase s = ''stop''"
  "ci_equal s ''restart'' \<longleftrightarrow> toLowerCase s = ''restart''"
  "ci_equal s ''reset'' \<longleftrightarrow> toLowerCase s = ''reset''"
  by (simp_all add: ci_equal_toLowerCase) (simp_all add: toLowerCase_def toLowerChar_def)

section \<open>The status normalizer is total and closed\<close>

text \<open>
  C1. For every string the normalizer returns one of the six values of \<open>VMStatus\<close>. It
  returns \<open>Running\<close>, \<open>Stopped\<close>, \<open>Starting\<close>, \<open>Stopping\<close> or \<open>Paused\<close> exactly when the
  input equals the label \<open>running\<close>, \<open>stopped\<close>, \<open>starting\<close>, \<open>stopping\<close> or \<open>paused\<close> up to
  case, and \<open>Error\<close> exactly when the input equals none of the five up to case. The
  function has no failing branch: it is a total function from strings to strings. The
  empty string and an unknown state of the server are sent to \<open>Error\<close>.
\<close>

theorem normalizeVMStatus_total:
  "normalizeVMStatus s \<in> VMStatus
   \<and> (normalizeVMStatus s = ''Running'' \<longleftrightarrow> ci_equal s ''running'')
   \<and> (normalizeVMStatus s = ''Stopped'' \<longleftrightarrow> ci_equal s ''stopped'')
   \<and> (normalizeVMStatus s = ''Starting'' \<longleftrightarrow> ci_equal s ''starting'')
   \<and> (normalizeVMStatus s = ''Stopping'' \<longleftrightarrow> ci_equal s ''stopping'')
   \<and> (normalizeVMStatus s = ''Paused'' \<longleftrightarrow> ci_equal s ''paused'')
   \<and> (normalizeVMStatus s = ''Error'' \<longleftrightarrow>
        \<not> (\<exists>l \<in> {''running'', ''stopped'', ''starting'', ''stopping'', ''paused''}. ci_equal s l))
   \<and> normalizeVMStatus [] = ''Error''
   \<and> normalizeVMStatus ''unknown-state'' = ''Error''"
proof -
  have a: "normalizeVMStatus [] = ''Error''"
    by (simp add: normalizeVMStatus_def toLowerCase_def)
  have b: "normalizeVMStatus ''unknown-state'' = ''Error''"
    by (simp add: normalizeVMStatus_def toLowerCase_def toLowerChar_def)
  have c: "normalizeVMStatus s \<in> VMStatus"
    by (simp add: normalizeVMStatus_def VMStatus_def Let_def)
  have d: "(normalizeVMStatus s = ''Running'' \<longleftrightarrow> ci_equal s ''running'')
   \<and> (normalizeVMStatus s = ''Stopped'' \<longleftrightarrow> ci_equal s ''stopped'')
   \<and> (normalizeVMStatus s = ''Starting'' \<longleftrightarrow> ci_equal s ''starting'')
   \<and> (normalizeVMStatus s = ''Stopping'' \<longleftrightarrow> ci_equal s ''stopping'')
   \<and> (normalizeVMStatus s = ''Paused'' \<longleftrightarrow> ci_equal s ''paused'')
   \<and> (normalizeVMStatus s = ''Error'' \<longleftrightarrow>
        \<not> (\<exists>l \<in> {''running'', ''stopped'', ''starting'', ''stopping'', ''paused''}. ci_equal s l))"
    by (simp add: ci_equal_labels normalizeVMStatus_def Let_def)
  from a b c d show ?thesis by (simp only: simp_thms)
qed

text \<open>
  The inputs of the specification's test: \<open>Running\<close>, \<open>STOPPED\<close> and \<open>paused\<close> are
  recognised in any casing, \<open>Error\<close> is not a label and falls to the default, which is
  also \<open>Error\<close>.
\<close>

theorem normalizeVMStatus_total_witness:
  "normalizeVMStatus ''Running'' = ''Running''
   \<and> normalizeVMStatus ''STOPPED'' = ''Stopped''
   \<and> normalizeVMStatus ''paused'' = ''Paused''
   \<and> normalizeVMStatus ''Error'' = ''Error''
   \<and> normalizeVMStatus ''sToPpInG'' \<in> VMStatus
   \<and> ci_equal ''sToPpInG'' ''stopping''"
proof -
  have e: "ci_equal ''sToPpInG'' ''stopping''"
    by (simp add: ci_equal_def toLowerChar_def)
  have f: "normalizeVMStatus ''sToPpInG'' \<in> VMStatus"
    using normalizeVMStatus_total [of "''sToPpInG''"] by (rule conjunct1)
  have g: "normalizeVMStatus ''Running'' = ''Running''"
    "normalizeVMStatus ''STOPPED'' = ''Stopped''"
    "normalizeVMStatus ''paused'' = ''Paused''"
    "normalizeVMStatus ''Error'' = ''Error''"
    by (simp_all add: normalizeVMStatus_def toLowerCase_def toLowerChar_def)
  from e f g show ?thesis
    by (simp only: simp_thms)
qed

section \<open>The action dispatcher: facts\<close>

lemma handleVMAction_default:
  assumes "toLowerCase action \<notin> {''start'', ''stop'', ''restart'', ''reset''}"
  shows "handleVMAction svc vmId action instanceOs employeeId w =
     (Inl (new_Error (''Unsupported action: '' @ action)),
      w\<lparr>logs := logs w @ [''Error performing VM '' @ action @ '':''],
        toasts := toasts w @ [ToastError (''VM '' @ action @ '' Failed'')
           (Some (''Failed to '' @ toLowerCase action @ '' VM.''))]\<rparr>)"
  using assms by (simp add: handleVMAction_def Let_def new_Error_def or_else_def)

lemma handleVMAction_calls:
  "toLowerCase action = ''start'' \<Longrightarrow>
     calls (snd (handleVMAction svc vmId action instanceOs employeeId w))
       = calls w @ [StartVM instanceOs employeeId]"
  "toLowerCase action = ''stop'' \<Longrightarrow>
     calls (snd (handleVMAction svc vmId action instanceOs employeeId w))
       = calls w @ [StopVM instanceOs employeeId]"
  "toLowerCase action = ''restart'' \<or> toLowerCase action = ''reset'' \<Longrightarrow>
     calls (snd (handleVMAction svc vmId action instanceOs employeeId w))
       = calls w @ [RestartVM instanceOs employeeId]"
  by (auto simp add: handleVMAction_def Let_def split: sum.splits)

lemma handleVMAction_fst:
  "toLowerCase action = ''start'' \<Longrightarrow>
     fst (handleVMAction svc vmId action instanceOs employeeId w) = startVM svc instanceOs employeeId"
  "toLowerCase action = ''stop'' \<Longrightarrow>
     fst (handleVMAction svc vmId action instanceOs employeeId w) = stopVM svc instanceOs employeeId"
  "toLowerCase action = ''restart'' \<or> toLowerCase action = ''reset'' \<Longrightarrow>
     fst (handleVMAction svc vmId action instanceOs employeeId w) = restartVM svc instanceOs employeeId"
  by (auto simp add: handleVMAction_def Let_def split: sum.splits)

lemma handleVMAction_toasts:
  assumes "toLowerCase action \<in> {''start'', ''stop'', ''restart'', ''reset''}"
    and "fst (handleVMAction svc vmId action instanceOs employeeId w) = Inl error"
  shows "toasts (snd (handleVMAction svc vmId action instanceOs employeeId w)) =
     toasts w @ [ToastError (''VM '' @ action @ '' Failed'')
        (Some (or_else (server_message error) (''Failed to '' @ toLowerCase action @ '' VM.'')))]"
  using assms by (auto simp add: handleVMAction_def Let_def split: sum.splits)

text \<open>
  C4. For every action string that equals none of \<open>start\<close>, \<open>stop\<close>, \<open>restart\<close>, \<open>reset\<close>
  up to case, \<^verbatim>\<open>handleVMAction\<close> ends by throwing the error
  \<^verbatim>\<open>Unsupported action: <action>\<close> to its caller, and the list of remote calls made is
  what it was before the dispatch: none of \<^verbatim>\<open>startVM\<close>, \<^verbatim>\<open>stopVM\<close>, \<^verbatim>\<open>restartVM\<close>
  is invoked.
\<close>

theorem handleVMAction_unsupported:
  assumes "\<not> ci_equal action ''start''" and "\<not> ci_equal action ''stop''"
    and "\<not> ci_equal action ''restart''" and "\<not> ci_equal action ''reset''"
  shows "fst (handleVMAction svc vmId action instanceOs employeeId w)
           = Inl (new_Error (''Unsupported action: '' @ action))
         \<and> calls (snd (handleVMAction svc vmId action instanceOs employeeId w)) = calls w"
proof -
  from assms have "toLowerCase action \<notin> {''start'', ''stop'', ''restart'', ''reset''}"
    by (simp add: ci_equal_labels)
  then show ?thesis
    by (simp add: handleVMAction_default)
qed

theorem handleVMAction_unsupported_witness:
  "\<not> ci_equal ''launch'' ''start'' \<and> \<not> ci_equal ''launch'' ''stop''
   \<and> \<not> ci_equal ''launch'' ''restart'' \<and> \<not> ci_equal ''launch'' ''reset''
   \<and> fst (handleVMAction example_service ''vm-001'' ''launch'' ''Windows'' ''emp-001'' initial_world)
        = Inl \<lparr>err_message = ''Unsupported action: launch'', server_message = None\<rparr>
   \<and> calls (snd (handleVMAction example_service ''vm-001'' ''launch'' ''Windows'' ''emp-001''
        initial_world)) = []"
proof -
  have h: "\<not> ci_equal ''launch'' ''start''" "\<not> ci_equal ''launch'' ''stop''"
    "\<not> ci_equal ''launch'' ''restart''" "\<not> ci_equal ''launch'' ''reset''"
    by (simp_all add: ci_equal_def toLowerChar_def)
  from handleVMAction_unsupported [OF h,
      of example_service "''vm-001''" "''Windows''" "''emp-001''" initial_world]
  have "fst (handleVMAction example_service ''vm-001'' ''launch'' ''Windows'' ''emp-001'' initial_world)
        = Inl \<lparr>err_message = ''Unsupported action: launch'', server_message = None\<rparr>"
    and "calls (snd (handleVMAction example_service ''vm-001'' ''launch'' ''Windows'' ''emp-001''
        initial_world)) = []"
    by (simp_all add: new_Error_def initial_world_def)
  with h show ?thesis by (simp only: simp_thms)
qed

text \<open>
  C5. For every \<open>vmId\<close>, \<open>instanceOs\<close> and \<open>employeeId\<close>, and every action that equals
  \<open>reset\<close> up to case, the dispatch makes exactly one remote call,
  \<^verbatim>\<open>restartVM(instanceOs, employeeId)\<close>, and so does the dispatch of \<open>restart\<close>; the two
  dispatches end with the same response or the same failure.
\<close>

theorem reset_same_as_restart:
  assumes "ci_equal action ''reset''"
  shows "calls (snd (handleVMAction svc vmId action instanceOs employeeId w))
           = calls w @ [RestartVM instanceOs employeeId]
         \<and> calls (snd (handleVMAction svc vmId ''restart'' instanceOs employeeId w))
           = calls w @ [RestartVM instanceOs employeeId]
         \<and> fst (handleVMAction svc vmId action instanceOs employeeId w)
           = fst (handleVMAction svc vmId ''restart'' instanceOs employeeId w)"
proof -
  from assms have a: "toLowerCase action = ''restart'' \<or> toLowerCase action = ''reset''"
    by (simp add: ci_equal_labels)
  have b: "toLowerCase ''restart'' = ''restart'' \<or> toLowerCase ''restart'' = ''reset''"
    by (simp add: toLowerCase_def toLowerChar_def)
  show ?thesis
    by (simp only: handleVMAction_calls(3) [OF a] handleVMAction_calls(3) [OF b]
        handleVMAction_fst(3) [OF a] handleVMAction_fst(3) [OF b] simp_thms)
qed

theorem reset_same_as_restart_witness:
  "ci_equal ''RESET'' ''reset''
   \<and> calls (snd (handleVMAction example_service ''vm-002'' ''RESET'' ''Linux'' ''emp-002'' initial_world))
        = [RestartVM ''Linux'' ''emp-002'']
   \<and> calls (snd (handleVMAction example_service ''vm-002'' ''restart'' ''Linux'' ''emp-002'' initial_world))
        = [RestartVM ''Linux'' ''emp-002'']"
proof -
  have h: "ci_equal ''RESET'' ''reset''"
    by (simp add: ci_equal_def toLowerChar_def)
  from reset_same_as_restart [OF h, of example_service "''vm-002''" "''Linux''" "''emp-002''" initial_world]
  have "calls (snd (handleVMAction example_service ''vm-002'' ''RESET'' ''Linux'' ''emp-002'' initial_world))
        = [RestartVM ''Linux'' ''emp-002'']"
    and "calls (snd (handleVMAction example_service ''vm-002'' ''restart'' ''Linux'' ''emp-002'' initial_world))
        = [RestartVM ''Linux'' ''emp-002'']"
    by (simp_all add: initial_world_def)
  with h show ?thesis by (simp only: simp_thms)
qed

text \<open>
  C6. Let \<open>res\<close> be the result of the remote operation that the action selects. When it
  is a failure, \<^verbatim>\<open>handleVMAction\<close> throws that same failure to its caller and emits the
  error notification \<^verbatim>\<open>VM <action> Failed\<close>, described by the message of the server when
  the failure carries a non-empty one (the operand of \<^verbatim>\<open>||\<close> is truthy) and by
  \<^verbatim>\<open>Failed to <action in lower case> VM.\<close> otherwise. When it is a response,
  \<^verbatim>\<open>handleVMAction\<close> returns that response as it is.
\<close>

theorem handleVMAction_outcome:
  assumes "(ci_equal action ''start'' \<and> res = startVM svc instanceOs employeeId)
         \<or> (ci_equal action ''stop'' \<and> res = stopVM svc instanceOs employeeId)
         \<or> ((ci_equal action ''restart'' \<or> ci_equal action ''reset'')
              \<and> res = restartVM svc instanceOs employeeId)"
  shows "(\<forall>error. res = Inl error \<longrightarrow>
            fst (handleVMAction svc vmId action instanceOs employeeId w) = Inl error
            \<and> toasts (snd (handleVMAction svc vmId action instanceOs employeeId w)) =
                toasts w @ [ToastError (''VM '' @ action @ '' Failed'')
                  (Some (case server_message error of
                           None \<Rightarrow> ''Failed to '' @ toLowerCase action @ '' VM.''
                         | Some m \<Rightarrow> if m = [] then ''Failed to '' @ toLowerCase action @ '' VM.''
                                     else m))])
       \<and> (\<forall>response. res = Inr response \<longrightarrow>
            fst (handleVMAction svc vmId action instanceOs employeeId w) = Inr response)"
proof -
  from assms have a: "toLowerCase action \<in> {''start'', ''stop'', ''restart'', ''reset''}"
    by (auto simp add: ci_equal_labels)
  from assms have b: "fst (handleVMAction svc vmId action instanceOs employeeId w) = res"
    by (auto simp add: ci_equal_labels handleVMAction_fst)
  show ?thesis
  proof (intro conjI allI impI)
    fix error
    assume "res = Inl error"
    with b show "fst (handleVMAction svc vmId action instanceOs employeeId w) = Inl error"
      by simp
  next
    fix error
    assume "res = Inl error"
    with b have "fst (handleVMAction svc vmId action instanceOs employeeId w) = Inl error"
      by simp
    from handleVMAction_toasts [OF a this]
    show "toasts (snd (handleVMAction svc vmId action instanceOs employeeId w)) =
                toasts w @ [ToastError (''VM '' @ action @ '' Failed'')
                  (Some (case server_message error of
                           None \<Rightarrow> ''Failed to '' @ toLowerCase action @ '' VM.''
                         | Some m \<Rightarrow> if m = [] then ''Failed to '' @ toLowerCase action @ '' VM.''
                                     else m))]"
      by (simp add: or_else_def split: option.splits)
  next
    fix response
    assume "res = Inr response"
    with b show "fst (handleVMAction svc vmId action instanceOs employeeId w) = Inr response"
      by simp
  qed
qed

theorem handleVMAction_outcome_witness:
  "ci_equal ''Restart'' ''restart''
   \<and> fst (handleVMAction example_service ''vm-001'' ''Restart'' ''Windows'' ''emp-001'' initial_world)
       = Inl \<lparr>err_message = ''Request failed with status code 500'',
              server_message = Some ''no capacity''\<rparr>
   \<and> toasts (snd (handleVMAction example_service ''vm-001'' ''Restart'' ''Windows'' ''emp-001''
        initial_world)) = [ToastError ''VM Restart Failed'' (Some ''no capacity'')]"
proof -
  have h: "ci_equal ''Restart'' ''restart''"
    by (simp add: ci_equal_def toLowerChar_def)
  have r: "restartVM example_service ''Windows'' ''emp-001''
     = Inl \<lparr>err_message = ''Request failed with status code 500'',
              server_message = Some ''no capacity''\<rparr>"
    by (simp add: example_service_def)
  from h r have p: "(ci_equal ''Restart'' ''start'' \<and> Inl \<lparr>err_message = ''Request failed with status code 500'',
              server_message = Some ''no capacity''\<rparr> = startVM example_service ''Windows'' ''emp-001'')
         \<or> (ci_equal ''Restart'' ''stop'' \<and> Inl \<lparr>err_message = ''Request failed with status code 500'',
              server_message = Some ''no capacity''\<rparr> = stopVM example_service ''Windows'' ''emp-001'')
         \<or> ((ci_equal ''Restart'' ''restart'' \<or> ci_equal ''Restart'' ''reset'')
              \<and> Inl \<lparr>err_message = ''Request failed with status code 500'',
              server_message = Some ''no capacity''\<rparr> = restartVM example_service ''Windows'' ''emp-001'')"
    by (simp only: simp_thms)
  from handleVMAction_outcome [OF p, of "''vm-001''" initial_world]
  have "fst (handleVMAction example_service ''vm-001'' ''Restart'' ''Windows'' ''emp-001'' initial_world)
       = Inl \<lparr>err_message = ''Request failed with status code 500'',
              server_message = Some ''no capacity''\<rparr>"
   and "toasts (snd (handleVMAction example_service ''vm-001'' ''Restart'' ''Windows'' ''emp-001''
        initial_world)) = [ToastError ''VM Restart Failed'' (Some ''no capacity'')]"
    by (simp_all add: initial_world_def)
  with h show ?thesis by (simp only: simp_thms)
qed

section \<open>The mapper: facts\<close>

lemma floor_band:
  fixes x :: real
  assumes "0 \<le> x" and "x < 1" and "0 < n"
  shows "0 \<le> \<lfloor>x * of_int n\<rfloor> \<and> \<lfloor>x * of_int n\<rfloor> < n"
proof -
  from assms have "0 \<le> x * of_int n" by simp
  moreover from assms have "x * of_int n < of_int n" by simp
  ultimately show ?thesis by (simp add: floor_less_iff)
qed

lemma convert_throws:
  "convertApiVMToAppFormat e Nullish w = (Inl TypeError, w)"
  "api_status r = None \<Longrightarrow>
     convertApiVMToAppFormat e (Object r) w = (Inl TypeError, w\<lparr>clock_reads := clock_reads w + 1\<rparr>)"
  by (simp_all add: convertApiVMToAppFormat_def Let_def)

lemma convert_returns:
  assumes "api_status r = Some st"
  shows "\<exists>vm. fst (convertApiVMToAppFormat e (Object r) w) = Inr vm
     \<and> status vm = normalizeVMStatus st
     \<and> resources vm =
         (let isRunning = (toLowerCase st = ''running''); k = random_draws w in
          \<lparr>cpu = (if isRunning then \<lfloor>math_random e k * 60\<rfloor> + 20 else 0),
           memory = (if isRunning then \<lfloor>math_random e (k + 1) * 50\<rfloor> + 30 else 0),
           disk = \<lfloor>math_random e (if isRunning then k + 2 else k) * 40\<rfloor> + 10,
           network = (if isRunning then \<lfloor>math_random e (k + 3) * 40\<rfloor> + 5 else 0)\<rparr>)
     \<and> uptime vm =
         (let uptimeMs = (if toLowerCase st = ''running''
                 then map_option (\<lambda>t. date_now e (clock_reads w) - t) (parseDate e (updated_at r))
                 else Some 0)
          in numToString (map_option (\<lambda>ms. ms div 3600000) uptimeMs) @ ''h '' @
             numToString (map_option (\<lambda>ms. js_rem ms 3600000 div 60000) uptimeMs) @ ''m'')"
  using assms by (simp add: convertApiVMToAppFormat_def Let_def)

lemma convert_heap: "heap (snd (convertApiVMToAppFormat e apiVM w)) = heap w"
  by (simp add: convertApiVMToAppFormat_def Let_def split: any_vm.splits option.splits)

lemma convert_has_status:
  "has_status apiVM \<longleftrightarrow> (\<exists>vm. fst (convertApiVMToAppFormat e apiVM w) = Inr vm)"
  "\<not> has_status apiVM \<longleftrightarrow> fst (convertApiVMToAppFormat e apiVM w) = Inl TypeError"
  by (simp_all add: has_status_def convertApiVMToAppFormat_def Let_def
      split: any_vm.splits option.splits)

text \<open>
  C8. For every API record with a status string and every outcome of the random draws
  (each draw a number in \<open>[0, 1)\<close>), the mapper returns, and the resources it builds
  satisfy: when the status of the record equals \<open>running\<close> up to case,
  \<open>20 \<le> cpu < 80\<close>, \<open>30 \<le> memory < 80\<close> and \<open>5 \<le> network < 45\<close>; when it does not, cpu,
  memory and network are 0; and in both cases \<open>10 \<le> disk < 50\<close>.
\<close>

theorem convert_resources_bands:
  assumes "valid_random e" and "api_status apiVM = Some st"
  shows "\<exists>vm. fst (convertApiVMToAppFormat e (Object apiVM) w) = Inr vm
       \<and> (ci_equal st ''running'' \<longrightarrow>
            20 \<le> cpu (resources vm) \<and> cpu (resources vm) < 80
          \<and> 30 \<le> memory (resources vm) \<and> memory (resources vm) < 80
          \<and> 5 \<le> network (resources vm) \<and> network (resources vm) < 45)
       \<and> (\<not> ci_equal st ''running'' \<longrightarrow>
            cpu (resources vm) = 0 \<and> memory (resources vm) = 0 \<and> network (resources vm) = 0)
       \<and> 10 \<le> disk (resources vm) \<and> disk (resources vm) < 50"
proof -
  have r: "0 \<le> math_random e n \<and> math_random e n < 1" for n
    using assms(1) by (simp add: valid_random_def)
  have b60: "0 \<le> \<lfloor>math_random e n * 60\<rfloor> \<and> \<lfloor>math_random e n * 60\<rfloor> < 60" for n
    using floor_band [of "math_random e n" 60] r [of n] by simp
  have b50: "0 \<le> \<lfloor>math_random e n * 50\<rfloor> \<and> \<lfloor>math_random e n * 50\<rfloor> < 50" for n
    using floor_band [of "math_random e n" 50] r [of n] by simp
  have b40: "0 \<le> \<lfloor>math_random e n * 40\<rfloor> \<and> \<lfloor>math_random e n * 40\<rfloor> < 40" for n
    using floor_band [of "math_random e n" 40] r [of n] by simp
  from convert_returns [OF assms(2), of e w]
  obtain vm where v: "fst (convertApiVMToAppFormat e (Object apiVM) w) = Inr vm"
    and s: "resources vm =
         (let isRunning = (toLowerCase st = ''running''); k = random_draws w in
          \<lparr>cpu = (if isRunning then \<lfloor>math_random e k * 60\<rfloor> + 20 else 0),
           memory = (if isRunning then \<lfloor>math_random e (k + 1) * 50\<rfloor> + 30 else 0),
           disk = \<lfloor>math_random e (if isRunning then k + 2 else k) * 40\<rfloor> + 10,
           network = (if isRunning then \<lfloor>math_random e (k + 3) * 40\<rfloor> + 5 else 0)\<rparr>)"
    by blast
  have "(ci_equal st ''running'' \<longrightarrow>
            20 \<le> cpu (resources vm) \<and> cpu (resources vm) < 80
          \<and> 30 \<le> memory (resources vm) \<and> memory (resources vm) < 80
          \<and> 5 \<le> network (resources vm) \<and> network (resources vm) < 45)
       \<and> (\<not> ci_equal st ''running'' \<longrightarrow>
            cpu (resources vm) = 0 \<and> memory (resources vm) = 0 \<and> network (resources vm) = 0)
       \<and> 10 \<le> disk (resources vm) \<and> disk (resources vm) < 50"
    using b60 [of "random_draws w"] b50 [of "random_draws w + 1"]
      b40 [of "random_draws w + 2"] b40 [of "random_draws w"] b40 [of "random_draws w + 3"]
    by (simp add: s ci_equal_labels Let_def)
  with v show ?thesis by (intro exI [of _ vm] conjI) simp_all
qed


lemma example_record_facts:
  "valid_random example_env"
  "api_status example_running = Some ''RUNNING''"
  "api_status example_stopped = Some ''stopped''"
  "ci_equal ''RUNNING'' ''running''"
  "\<not> ci_equal ''stopped'' ''running''"
  "parseDate example_env (updated_at example_running)
     = Some (date_now example_env (clock_reads initial_world) - (2 * 3600000 + 5 * 60000))"
  by (simp_all add: valid_random_def example_env_def example_running_def example_stopped_def
      initial_world_def ci_equal_def toLowerChar_def)

theorem convert_resources_bands_witness:
  "valid_random example_env
   \<and> api_status example_running = Some ''RUNNING'' \<and> ci_equal ''RUNNING'' ''running''
   \<and> (\<exists>vm. fst (convertApiVMToAppFormat example_env (Object example_running) initial_world) = Inr vm
         \<and> 20 \<le> cpu (resources vm) \<and> cpu (resources vm) < 80
         \<and> 30 \<le> memory (resources vm) \<and> memory (resources vm) < 80
         \<and> 5 \<le> network (resources vm) \<and> network (resources vm) < 45
         \<and> 10 \<le> disk (resources vm) \<and> disk (resources vm) < 50)
   \<and> map_sum id resources
        (fst (convertApiVMToAppFormat example_env (Object example_running) initial_world))
        = Inr \<lparr>cpu = 50, memory = 79, disk = 30, network = 44\<rparr>
   \<and> api_status example_stopped = Some ''stopped'' \<and> \<not> ci_equal ''stopped'' ''running''
   \<and> (\<exists>vm. fst (convertApiVMToAppFormat example_env (Object example_stopped) initial_world) = Inr vm
         \<and> cpu (resources vm) = 0 \<and> memory (resources vm) = 0 \<and> network (resources vm) = 0
         \<and> 10 \<le> disk (resources vm) \<and> disk (resources vm) < 50)
   \<and> map_sum id resources
        (fst (convertApiVMToAppFormat example_env (Object example_stopped) initial_world))
        = Inr \<lparr>cpu = 0, memory = 0, disk = 30, network = 0\<rparr>"
proof -
  note f = example_record_facts
  from convert_resources_bands [OF f(1) f(2), of initial_world] f(4)
  have a: "\<exists>vm. fst (convertApiVMToAppFormat example_env (Object example_running) initial_world) = Inr vm
         \<and> 20 \<le> cpu (resources vm) \<and> cpu (resources vm) < 80
         \<and> 30 \<le> memory (resources vm) \<and> memory (resources vm) < 80
         \<and> 5 \<le> network (resources vm) \<and> network (resources vm) < 45
         \<and> 10 \<le> disk (resources vm) \<and> disk (resources vm) < 50"
    by (simp only: simp_thms conj_assoc)
  from convert_resources_bands [OF f(1) f(3), of initial_world] f(5)
  have b: "\<exists>vm. fst (convertApiVMToAppFormat example_env (Object example_stopped) initial_world) = Inr vm
         \<and> cpu (resources vm) = 0 \<and> memory (resources vm) = 0 \<and> network (resources vm) = 0
         \<and> 10 \<le> disk (resources vm) \<and> disk (resources vm) < 50"
    by (simp only: simp_thms conj_assoc)
  have c: "map_sum id resources
        (fst (convertApiVMToAppFormat example_env (Object example_running) initial_world))
        = Inr \<lparr>cpu = 50, memory = 79, disk = 30, network = 44\<rparr>"
    by (simp add: convertApiVMToAppFormat_def Let_def example_running_def example_env_def
        initial_world_def toLowerCase_def toLowerChar_def)
  have d: "map_sum id resources
        (fst (convertApiVMToAppFormat example_env (Object example_stopped) initial_world))
        = Inr \<lparr>cpu = 0, memory = 0, disk = 30, network = 0\<rparr>"
    by (simp add: convertApiVMToAppFormat_def Let_def example_stopped_def example_env_def
        initial_world_def toLowerCase_def toLowerChar_def)
  from f(1) f(2) f(3) f(4) f(5) a b c d show ?thesis
    by (simp only: simp_thms)
qed

lemma js_rem_nonneg: "0 \<le> a \<Longrightarrow> 0 < b \<Longrightarrow> js_rem a b = a mod b"
  by (cases "a = 0") (simp_all add: js_rem_def)

lemma js_rem_zero: "js_rem 0 b = 0"
  by (simp add: js_rem_def)

lemma digits_values: "digits 0 = ''0''" "digits 2 = ''2''" "digits 5 = ''5''"
  by (simp_all add: digits.simps)

lemma numToString_nonneg: "0 \<le> i \<Longrightarrow> numToString (Some i) = digits (nat i)"
  by (simp add: numToString_def)

text \<open>
  C7. For every API record with a status string the mapper returns. When the status does
  not equal \<open>running\<close> up to case the uptime text is \<open>0h 0m\<close>. For a running record whose
  \<^verbatim>\<open>updated_at\<close> is a date \<open>t\<close>, the uptime text is \<open><hours>h <minutes>m\<close> for the
  difference \<open>now - t\<close> in milliseconds: the quotient by 3600000 and the quotient by 60000
  of the remainder (of the remainder that \<^verbatim>\<open>%\<close> computes; for a date that is not in the
  future these are the whole hours and the remaining whole minutes). A running record
  updated 2 h 5 min before now gets \<open>2h 5m\<close>.
\<close>

theorem convert_uptime_running_only:
  assumes "api_status apiVM = Some st"
  shows "\<exists>vm. fst (convertApiVMToAppFormat e (Object apiVM) w) = Inr vm
   \<and> (\<not> ci_equal st ''running'' \<longrightarrow> uptime vm = ''0h 0m'')
   \<and> (\<forall>t. ci_equal st ''running'' \<and> parseDate e (updated_at apiVM) = Some t \<longrightarrow>
        uptime vm =
          numToString (Some ((date_now e (clock_reads w) - t) div 3600000)) @ ''h '' @
          numToString (Some (js_rem (date_now e (clock_reads w) - t) 3600000 div 60000)) @ ''m'')
   \<and> (\<forall>t. ci_equal st ''running''
          \<and> parseDate e (updated_at apiVM) = Some t \<and> t \<le> date_now e (clock_reads w) \<longrightarrow>
        uptime vm =
          digits (nat ((date_now e (clock_reads w) - t) div 3600000)) @ ''h '' @
          digits (nat ((date_now e (clock_reads w) - t) mod 3600000 div 60000)) @ ''m'')
   \<and> (ci_equal st ''running''
        \<and> parseDate e (updated_at apiVM)
            = Some (date_now e (clock_reads w) - (2 * 3600000 + 5 * 60000)) \<longrightarrow>
        uptime vm = ''2h 5m'')"
proof -
  from convert_returns [OF assms, of e w]
  obtain vm where v: "fst (convertApiVMToAppFormat e (Object apiVM) w) = Inr vm"
    and u: "uptime vm =
         (let uptimeMs = (if toLowerCase st = ''running''
                 then map_option (\<lambda>t. date_now e (clock_reads w) - t)
                        (parseDate e (updated_at apiVM))
                 else Some 0)
          in numToString (map_option (\<lambda>ms. ms div 3600000) uptimeMs) @ ''h '' @
             numToString (map_option (\<lambda>ms. js_rem ms 3600000 div 60000) uptimeMs) @ ''m'')"
    by blast
  have a: "\<not> ci_equal st ''running'' \<longrightarrow> uptime vm = ''0h 0m''"
    by (simp add: u ci_equal_labels numToString_def js_rem_zero digits_values)
  have b: "\<forall>t. ci_equal st ''running'' \<and> parseDate e (updated_at apiVM) = Some t \<longrightarrow>
        uptime vm =
          numToString (Some ((date_now e (clock_reads w) - t) div 3600000)) @ ''h '' @
          numToString (Some (js_rem (date_now e (clock_reads w) - t) 3600000 div 60000)) @ ''m''"
    by (simp add: u ci_equal_labels)
  have c: "\<forall>t. ci_equal st ''running''
          \<and> parseDate e (updated_at apiVM) = Some t \<and> t \<le> date_now e (clock_reads w) \<longrightarrow>
        uptime vm =
          digits (nat ((date_now e (clock_reads w) - t) div 3600000)) @ ''h '' @
          digits (nat ((date_now e (clock_reads w) - t) mod 3600000 div 60000)) @ ''m''"
  proof (intro allI impI)
    fix t
    assume h: "ci_equal st ''running''
          \<and> parseDate e (updated_at apiVM) = Some t \<and> t \<le> date_now e (clock_reads w)"
    define d where "d = date_now e (clock_reads w) - t"
    from h have d: "0 \<le> d" by (simp add: d_def)
    then have hh: "0 \<le> d div 3600000" and mm: "0 \<le> d mod 3600000 div 60000"
      by (simp_all add: pos_imp_zdiv_nonneg_iff)
    from h d hh mm
    show "uptime vm =
          digits (nat ((date_now e (clock_reads w) - t) div 3600000)) @ ''h '' @
          digits (nat ((date_now e (clock_reads w) - t) mod 3600000 div 60000)) @ ''m''"
      unfolding d_def [symmetric]
      by (simp add: u ci_equal_labels d_def [symmetric] js_rem_nonneg numToString_nonneg)
  qed
  have g: "ci_equal st ''running''
        \<and> parseDate e (updated_at apiVM)
            = Some (date_now e (clock_reads w) - (2 * 3600000 + 5 * 60000)) \<longrightarrow>
        uptime vm = ''2h 5m''"
    by (simp add: u ci_equal_labels js_rem_def numToString_def digits_values)
  from v a b c g show ?thesis
    by (intro exI [of _ vm] conjI) (simp_all only: simp_thms)
qed

theorem convert_uptime_running_only_witness:
  "api_status example_running = Some ''RUNNING'' \<and> ci_equal ''RUNNING'' ''running''
   \<and> parseDate example_env (updated_at example_running)
        = Some (date_now example_env (clock_reads initial_world) - (2 * 3600000 + 5 * 60000))
   \<and> (\<exists>vm. fst (convertApiVMToAppFormat example_env (Object example_running) initial_world) = Inr vm
         \<and> uptime vm = ''2h 5m'')
   \<and> api_status example_stopped = Some ''stopped'' \<and> \<not> ci_equal ''stopped'' ''running''
   \<and> (\<exists>vm. fst (convertApiVMToAppFormat example_env (Object example_stopped) initial_world) = Inr vm
         \<and> uptime vm = ''0h 0m'')"
proof -
  note f = example_record_facts
  from convert_uptime_running_only [OF f(2), of example_env initial_world]
  obtain vm where "fst (convertApiVMToAppFormat example_env (Object example_running) initial_world) = Inr vm"
    and "ci_equal ''RUNNING'' ''running''
        \<and> parseDate example_env (updated_at example_running)
            = Some (date_now example_env (clock_reads initial_world) - (2 * 3600000 + 5 * 60000)) \<longrightarrow>
        uptime vm = ''2h 5m''"
    by blast
  with f(4) f(6)
  have a: "\<exists>vm. fst (convertApiVMToAppFormat example_env (Object example_running) initial_world) = Inr vm
         \<and> uptime vm = ''2h 5m''"
    by (intro exI [of _ vm]) (simp only: simp_thms)
  from convert_uptime_running_only [OF f(3), of example_env initial_world]
  obtain vm' where "fst (convertApiVMToAppFormat example_env (Object example_stopped) initial_world) = Inr vm'"
    and "\<not> ci_equal ''stopped'' ''running'' \<longrightarrow> uptime vm' = ''0h 0m''"
    by blast
  with f(5)
  have b: "\<exists>vm. fst (convertApiVMToAppFormat example_env (Object example_stopped) initial_world) = Inr vm
         \<and> uptime vm = ''0h 0m''"
    by (intro exI [of _ vm']) (simp only: simp_thms)
  from f(2) f(3) f(4) f(5) f(6) a b show ?thesis
    by (simp only: simp_thms)
qed

section \<open>The loader: facts\<close>

lemma mock_inv_initial: "mock_inv initial_world"
  by (simp add: mock_inv_def initial_world_def mock_windows_def mock_linux_def)

lemma overlay_frame:
  "overlay r vm = vm\<lparr>status := status (overlay r vm), resources := resources (overlay r vm),
     uptime := uptime (overlay r vm)\<rparr>"
  by (simp add: overlay_def Let_def)

lemma overlay_os: "os (overlay r vm) = os vm"
  by (simp add: overlay_def Let_def)

lemma overlay_disk: "disk (resources (overlay r vm)) = disk (resources vm)"
  by (simp add: overlay_def Let_def)

lemma overlay_status:
  "os vm = ''Windows'' \<Longrightarrow> status (overlay r vm) = windows r"
  "os vm = ''Linux'' \<Longrightarrow> status (overlay r vm) = linux r"
  by (simp_all add: overlay_def Let_def toLowerCase_def toLowerChar_def)

lemma overlay_Stopped:
  assumes "status (overlay r vm) = ''Stopped''"
  shows "cpu (resources (overlay r vm)) = 0" "memory (resources (overlay r vm)) = 0"
    "network (resources (overlay r vm)) = 0" "uptime (overlay r vm) = ''0h 0m''"
  using assms by (simp_all add: overlay_def Let_def split: if_splits)


lemma loadUserVMs_single:
  assumes "employeeId \<noteq> []" and "getVMStatus svc employeeId = Inr statusResponse"
    and "2 \<le> length (heap w)"
  shows "loadUserVMs e svc (Some employeeId) w =
     (Inr mockVMs,
      w\<lparr>calls := calls w @ [GetVMStatus employeeId],
        heap := (heap w)[0 := overlay statusResponse (heap w ! 0),
                         1 := overlay statusResponse (heap w ! 1)]\<rparr>)"
  using assms by (simp add: loadUserVMs_def truthy_def mockVMs_def Let_def)

lemma loadUserVMs_single_failed:
  assumes "employeeId \<noteq> []" and "getVMStatus svc employeeId = Inl error"
  shows "fst (loadUserVMs e svc (Some employeeId) w) = Inr mockVMs"
    "heap (snd (loadUserVMs e svc (Some employeeId) w)) = heap w"
  using assms by (simp_all add: loadUserVMs_def truthy_def Let_def)

lemma loadUserVMs_fallback:
  assumes "\<not> truthy employeeId" and "\<forall>vms. getAllVMs svc \<noteq> Inr (Body (VmsArray vms))"
  shows "fst (loadUserVMs e svc employeeId w) = Inr mockVMs"
    "heap (snd (loadUserVMs e svc employeeId w)) = heap w"
    "calls (snd (loadUserVMs e svc employeeId w)) = calls w @ [GetAllVMs]"
  using assms
  by (simp_all add: loadUserVMs_def Let_def
      split: sum.splits allVMs_response.splits vms_field.splits)

lemma map_convert_Cons:
  "map_convert e (apiVM # rest) w =
     (case fst (convertApiVMToAppFormat e apiVM w) of
        Inl error \<Rightarrow> (Inl error, snd (convertApiVMToAppFormat e apiVM w))
      | Inr vm \<Rightarrow>
          (case fst (map_convert e rest (snd (convertApiVMToAppFormat e apiVM w))) of
             Inl error \<Rightarrow>
               (Inl error, snd (map_convert e rest (snd (convertApiVMToAppFormat e apiVM w))))
           | Inr vms \<Rightarrow>
               (Inr (vm # vms),
                snd (map_convert e rest (snd (convertApiVMToAppFormat e apiVM w))))))"
  by (simp split: prod.splits sum.splits)

lemma map_convert_heap: "heap (snd (map_convert e vms w)) = heap w"
  by (induction vms arbitrary: w)
    (simp_all add: map_convert_Cons convert_heap split: sum.splits del: map_convert.simps(2))

lemma map_convert_returns:
  "list_all has_status vms \<Longrightarrow>
     \<exists>objs. fst (map_convert e vms w) = Inr objs \<and> length objs = length vms
       \<and> (\<forall>i < length vms. \<exists>wi. fst (convertApiVMToAppFormat e (vms ! i) wi) = Inr (objs ! i))"
proof (induction vms arbitrary: w)
  case Nil
  show ?case by simp
next
  case (Cons apiVM rest)
  from Cons.prems have h: "has_status apiVM" and r: "list_all has_status rest"
    by simp_all
  from h obtain vm where v: "fst (convertApiVMToAppFormat e apiVM w) = Inr vm"
    using convert_has_status(1) [of apiVM e w] by blast
  from Cons.IH [OF r, of "snd (convertApiVMToAppFormat e apiVM w)"]
  obtain objs where o: "fst (map_convert e rest (snd (convertApiVMToAppFormat e apiVM w))) = Inr objs"
    and l: "length objs = length rest"
    and n: "\<forall>i < length rest. \<exists>wi. fst (convertApiVMToAppFormat e (rest ! i) wi) = Inr (objs ! i)"
    by blast
  have a: "fst (map_convert e (apiVM # rest) w) = Inr (vm # objs)"
    by (simp add: map_convert_Cons v o del: map_convert.simps(2))
  have b: "\<exists>wi. fst (convertApiVMToAppFormat e ((apiVM # rest) ! i) wi) = Inr ((vm # objs) ! i)"
    if "i < length (apiVM # rest)" for i
  proof (cases i)
    case 0
    with v show ?thesis by auto
  next
    case (Suc j)
    with that n show ?thesis by simp
  qed
  from a l b show ?case by simp
qed

lemma map_convert_throws:
  "\<not> list_all has_status vms \<Longrightarrow> fst (map_convert e vms w) = Inl TypeError"
proof (induction vms arbitrary: w)
  case Nil
  then show ?case by simp
next
  case (Cons apiVM rest)
  show ?case
  proof (cases "has_status apiVM")
    case False
    then have "fst (convertApiVMToAppFormat e apiVM w) = Inl TypeError"
      using convert_has_status(2) [of apiVM e w] by simp
    then show ?thesis
      by (simp add: map_convert_Cons del: map_convert.simps(2))
  next
    case True
    then obtain vm where v: "fst (convertApiVMToAppFormat e apiVM w) = Inr vm"
      using convert_has_status(1) [of apiVM e w] by blast
    from True Cons.prems have "\<not> list_all has_status rest" by simp
    from Cons.IH [OF this, of "snd (convertApiVMToAppFormat e apiVM w)"] v show ?thesis
      by (simp add: map_convert_Cons del: map_convert.simps(2))
  qed
qed

lemma nth_fresh: "map (\<lambda>r. (h @ objs) ! r) [length h ..< length h + length objs] = objs"
  by (rule nth_equalityI) (simp_all add: nth_append)

lemma loadUserVMs_all_array:
  assumes "\<not> truthy employeeId" and "getAllVMs svc = Inr (Body (VmsArray vms))"
    and "fst (map_convert e vms (w\<lparr>calls := calls w @ [GetAllVMs]\<rparr>)) = Inr objs"
  shows "fst (loadUserVMs e svc employeeId w)
           = Inr [length (heap w) ..< length (heap w) + length objs]"
    "heap (snd (loadUserVMs e svc employeeId w)) = heap w @ objs"
    "toasts (snd (loadUserVMs e svc employeeId w))
       = toasts (snd (map_convert e vms (w\<lparr>calls := calls w @ [GetAllVMs]\<rparr>)))"
proof -
  obtain w2 where m: "map_convert e vms (w\<lparr>calls := calls w @ [GetAllVMs]\<rparr>) = (Inr objs, w2)"
    using assms(3) by (cases "map_convert e vms (w\<lparr>calls := calls w @ [GetAllVMs]\<rparr>)") simp
  from map_convert_heap [of e vms "w\<lparr>calls := calls w @ [GetAllVMs]\<rparr>"] m
  have h: "heap w2 = heap w" by simp
  from assms(1) assms(2) m h show "fst (loadUserVMs e svc employeeId w)
           = Inr [length (heap w) ..< length (heap w) + length objs]"
    by (simp add: loadUserVMs_def Let_def)
  from assms(1) assms(2) m h show "heap (snd (loadUserVMs e svc employeeId w)) = heap w @ objs"
    by (simp add: loadUserVMs_def Let_def)
  from assms(1) assms(2) m show "toasts (snd (loadUserVMs e svc employeeId w))
       = toasts (snd (map_convert e vms (w\<lparr>calls := calls w @ [GetAllVMs]\<rparr>)))"
    by (simp add: loadUserVMs_def Let_def)
qed

lemma loadUserVMs_all_thrown:
  assumes "\<not> truthy employeeId" and "getAllVMs svc = Inr (Body (VmsArray vms))"
    and "fst (map_convert e vms (w\<lparr>calls := calls w @ [GetAllVMs]\<rparr>)) = Inl error"
  shows "fst (loadUserVMs e svc employeeId w) = Inr mockVMs"
    "heap (snd (loadUserVMs e svc employeeId w)) = heap w"
    "toasts (snd (loadUserVMs e svc employeeId w))
       = toasts (snd (map_convert e vms (w\<lparr>calls := calls w @ [GetAllVMs]\<rparr>)))
           @ [ToastError ''Failed to fetch VMs data'' None]"
proof -
  obtain w2 where m: "map_convert e vms (w\<lparr>calls := calls w @ [GetAllVMs]\<rparr>) = (Inl error, w2)"
    using assms(3) by (cases "map_convert e vms (w\<lparr>calls := calls w @ [GetAllVMs]\<rparr>)") simp
  from map_convert_heap [of e vms "w\<lparr>calls := calls w @ [GetAllVMs]\<rparr>"] m
  have h: "heap w2 = heap w" by simp
  from assms(1) assms(2) m show "fst (loadUserVMs e svc employeeId w) = Inr mockVMs"
    by (simp add: loadUserVMs_def Let_def)
  from assms(1) assms(2) m h show "heap (snd (loadUserVMs e svc employeeId w)) = heap w"
    by (simp add: loadUserVMs_def Let_def)
  from assms(1) assms(2) m show "toasts (snd (loadUserVMs e svc employeeId w))
       = toasts (snd (map_convert e vms (w\<lparr>calls := calls w @ [GetAllVMs]\<rparr>)))
           @ [ToastError ''Failed to fetch VMs data'' None]"
    by (simp add: loadUserVMs_def Let_def)
qed

lemma convert_toasts: "toasts (snd (convertApiVMToAppFormat e apiVM w)) = toasts w"
  by (simp add: convertApiVMToAppFormat_def Let_def split: any_vm.splits option.splits)

lemma map_convert_toasts: "toasts (snd (map_convert e vms w)) = toasts w"
  by (induction vms arbitrary: w)
    (simp_all add: map_convert_Cons convert_toasts split: sum.splits del: map_convert.simps(2))

lemma loadUserVMs_single_heap:
  assumes "mock_inv w" and "employeeId \<noteq> []"
    and "getVMStatus svc employeeId = Inr statusResponse"
  shows "heap (snd (loadUserVMs e svc (Some employeeId) w)) ! 0 = overlay statusResponse (heap w ! 0)"
    "heap (snd (loadUserVMs e svc (Some employeeId) w)) ! 1 = overlay statusResponse (heap w ! 1)"
    "length (heap (snd (loadUserVMs e svc (Some employeeId) w))) = length (heap w)"
    "\<And>r. r \<noteq> 0 \<Longrightarrow> r \<noteq> 1 \<Longrightarrow>
       heap (snd (loadUserVMs e svc (Some employeeId) w)) ! r = heap w ! r"
    "fst (loadUserVMs e svc (Some employeeId) w) = Inr mockVMs"
    "calls (snd (loadUserVMs e svc (Some employeeId) w)) = calls w @ [GetVMStatus employeeId]"
proof -
  from assms(1) have l: "2 \<le> length (heap w)" by (simp add: mock_inv_def)
  from l have l0: "0 < length (heap w)" by arith
  from l have l1: "1 < length (heap w)" by arith
  note s = loadUserVMs_single [OF assms(2) assms(3) l, of e]
  from l0 l1 show "heap (snd (loadUserVMs e svc (Some employeeId) w)) ! 0
      = overlay statusResponse (heap w ! 0)"
    by (simp add: s)
  from l0 l1 show "heap (snd (loadUserVMs e svc (Some employeeId) w)) ! 1
      = overlay statusResponse (heap w ! 1)"
    by (simp add: s)
  show "length (heap (snd (loadUserVMs e svc (Some employeeId) w))) = length (heap w)"
    by (simp add: s)
  show "\<And>r. r \<noteq> 0 \<Longrightarrow> r \<noteq> 1 \<Longrightarrow>
       heap (snd (loadUserVMs e svc (Some employeeId) w)) ! r = heap w ! r"
    by (simp add: s)
  show "fst (loadUserVMs e svc (Some employeeId) w) = Inr mockVMs"
    by (simp add: s)
  show "calls (snd (loadUserVMs e svc (Some employeeId) w)) = calls w @ [GetVMStatus employeeId]"
    by (simp add: s)
qed

lemma mock_inv_os:
  "mock_inv w \<Longrightarrow> os (heap w ! 0) = ''Windows''"
  "mock_inv w \<Longrightarrow> os (heap w ! 1) = ''Linux''"
  by (simp_all add: mock_inv_def)

lemma ball_mockVMs: "(\<forall>r \<in> set mockVMs. P r) \<longleftrightarrow> P 0 \<and> P 1"
  by (simp add: mockVMs_def)

lemma example_single_facts:
  "mock_inv initial_world"
  "''emp-001'' \<noteq> []"
  "getVMStatus example_service ''emp-001'' = Inr \<lparr>windows = ''Stopped'', linux = ''Running''\<rparr>"
  "getVMStatus example_service2 ''emp-001'' = Inr \<lparr>windows = ''stopped'', linux = ''RUNNING''\<rparr>"
  by (simp_all add: mock_inv_initial example_service_def example_service2_def)

section \<open>The loader: single-user mode\<close>

text \<open>
  C2, amended. In single-user mode (a non-empty \<open>employeeId\<close>) with a status request that
  succeeds, \<^verbatim>\<open>loadUserVMs\<close> makes the one remote call \<^verbatim>\<open>getVMStatus(employeeId)\<close>,
  returns the two mock entries, and leaves the Windows entry with the status of the
  response's \<^verbatim>\<open>windows\<close> key and the Linux entry with that of its \<^verbatim>\<open>linux\<close> key. An
  entry whose resulting status is \<open>Stopped\<close> has cpu, memory and network set to 0 and
  uptime set to \<open>0h 0m\<close>; the disk of every entry is kept as it was. Given
  \<^verbatim>\<open>{windows:'Stopped', linux:'Running'}\<close> the Windows entry is returned with cpu, memory
  and network 0 and uptime \<open>0h 0m\<close>, and the Linux entry with status \<open>Running\<close>.
\<close>

theorem loadUserVMs_single_user:
  assumes "mock_inv w" and "employeeId \<noteq> []"
    and "getVMStatus svc employeeId = Inr statusResponse"
  shows "(let w' = snd (loadUserVMs e svc (Some employeeId) w) in
         fst (loadUserVMs e svc (Some employeeId) w) = Inr mockVMs
       \<and> calls w' = calls w @ [GetVMStatus employeeId]
       \<and> os (heap w' ! 0) = ''Windows'' \<and> status (heap w' ! 0) = windows statusResponse
       \<and> os (heap w' ! 1) = ''Linux'' \<and> status (heap w' ! 1) = linux statusResponse
       \<and> (\<forall>r \<in> set mockVMs. status (heap w' ! r) = ''Stopped'' \<longrightarrow>
             cpu (resources (heap w' ! r)) = 0 \<and> memory (resources (heap w' ! r)) = 0
           \<and> network (resources (heap w' ! r)) = 0 \<and> uptime (heap w' ! r) = ''0h 0m'')
       \<and> (\<forall>r \<in> set mockVMs. disk (resources (heap w' ! r)) = disk (resources (heap w ! r)))
       \<and> (windows statusResponse = ''Stopped'' \<and> linux statusResponse = ''Running'' \<longrightarrow>
             status (heap w' ! 0) = ''Stopped''
           \<and> cpu (resources (heap w' ! 0)) = 0 \<and> memory (resources (heap w' ! 0)) = 0
           \<and> network (resources (heap w' ! 0)) = 0 \<and> uptime (heap w' ! 0) = ''0h 0m''
           \<and> status (heap w' ! 1) = ''Running''))"
proof -
  note h = loadUserVMs_single_heap [OF assms, where e = e]
  note o = mock_inv_os [OF assms(1)]
  have s0: "status (overlay statusResponse (heap w ! 0)) = windows statusResponse"
    by (rule overlay_status(1) [OF o(1)])
  have s1: "status (overlay statusResponse (heap w ! 1)) = linux statusResponse"
    by (rule overlay_status(2) [OF o(2)])
  have z: "status (overlay statusResponse vm) = ''Stopped'' \<longrightarrow>
             cpu (resources (overlay statusResponse vm)) = 0
           \<and> memory (resources (overlay statusResponse vm)) = 0
           \<and> network (resources (overlay statusResponse vm)) = 0
           \<and> uptime (overlay statusResponse vm) = ''0h 0m''" for vm
    using overlay_Stopped [of statusResponse vm] by blast
  show ?thesis
    unfolding Let_def ball_mockVMs h(1) h(2) h(5) h(6)
    using s0 s1 z [of "heap w ! 0"] z [of "heap w ! 1"] o
    by (simp add: overlay_os overlay_disk)
qed


theorem loadUserVMs_single_user_witness:
  "mock_inv initial_world \<and> ''emp-001'' \<noteq> []
   \<and> getVMStatus example_service ''emp-001'' = Inr \<lparr>windows = ''Stopped'', linux = ''Running''\<rparr>
   \<and> (let w' = snd (loadUserVMs example_env example_service (Some ''emp-001'') initial_world) in
        calls w' = [GetVMStatus ''emp-001'']
      \<and> os (heap w' ! 0) = ''Windows'' \<and> status (heap w' ! 0) = ''Stopped''
      \<and> cpu (resources (heap w' ! 0)) = 0 \<and> memory (resources (heap w' ! 0)) = 0
      \<and> network (resources (heap w' ! 0)) = 0 \<and> uptime (heap w' ! 0) = ''0h 0m''
      \<and> disk (resources (heap w' ! 0)) = 30
      \<and> os (heap w' ! 1) = ''Linux'' \<and> status (heap w' ! 1) = ''Running'')"
proof -
  note f = example_single_facts
  from loadUserVMs_single_user [OF f(1) f(2) f(3), where e = example_env]
  have "(let w' = snd (loadUserVMs example_env example_service (Some ''emp-001'') initial_world) in
        calls w' = [GetVMStatus ''emp-001'']
      \<and> os (heap w' ! 0) = ''Windows'' \<and> status (heap w' ! 0) = ''Stopped''
      \<and> cpu (resources (heap w' ! 0)) = 0 \<and> memory (resources (heap w' ! 0)) = 0
      \<and> network (resources (heap w' ! 0)) = 0 \<and> uptime (heap w' ! 0) = ''0h 0m''
      \<and> disk (resources (heap w' ! 0)) = 30
      \<and> os (heap w' ! 1) = ''Linux'' \<and> status (heap w' ! 1) = ''Running'')"
    by (simp add: Let_def ball_mockVMs initial_world_def mock_windows_def)
  with f(1) f(2) f(3) show ?thesis
    by (simp only: simp_thms)
qed

text \<open>
  C2 as it is stated fails on the disk: with \<^verbatim>\<open>{windows:'Stopped', linux:'Running'}\<close>
  on the initial data the Windows entry comes back \<open>Stopped\<close> with disk 30, so its
  resources are not all zero (the code's comment: "zero out resource usage except disk").
\<close>

theorem loadUserVMs_single_user_disk_kept:
  "getVMStatus example_service ''emp-001'' = Inr \<lparr>windows = ''Stopped'', linux = ''Running''\<rparr>
   \<and> fst (loadUserVMs example_env example_service (Some ''emp-001'') initial_world) = Inr [0, 1]
   \<and> os (heap (snd (loadUserVMs example_env example_service (Some ''emp-001'') initial_world)) ! 0)
        = ''Windows''
   \<and> status (heap (snd (loadUserVMs example_env example_service (Some ''emp-001'') initial_world)) ! 0)
        = ''Stopped''
   \<and> resources (heap (snd (loadUserVMs example_env example_service (Some ''emp-001'') initial_world)) ! 0)
        = \<lparr>cpu = 0, memory = 0, disk = 30, network = 0\<rparr>
   \<and> resources (heap (snd (loadUserVMs example_env example_service (Some ''emp-001'') initial_world)) ! 0)
        \<noteq> \<lparr>cpu = 0, memory = 0, disk = 0, network = 0\<rparr>"
  by (simp add: loadUserVMs_def truthy_def example_service_def initial_world_def mockVMs_def
      overlay_def Let_def mock_windows_def mock_linux_def toLowerCase_def toLowerChar_def)




section \<open>The loader: the shared mock objects\<close>

lemma deref_mockVMs: "deref w mockVMs = [heap w ! 0, heap w ! 1]"
  by (simp add: deref_def mockVMs_def)

text \<open>
  The invariant of the mock objects holds at the start and after every call of the two
  exported operations, whatever the service answers.
\<close>

lemma mock_inv_handleVMAction:
  "mock_inv w \<Longrightarrow> mock_inv (snd (handleVMAction svc vmId action instanceOs employeeId w))"
  by (simp add: handleVMAction_def mock_inv_def Let_def split: sum.splits)

lemma mock_inv_loadUserVMs:
  assumes "mock_inv w"
  shows "mock_inv (snd (loadUserVMs e svc employeeId w))"
proof (cases "truthy employeeId")
  case True
  then obtain employeeId' where i: "employeeId = Some employeeId'" and n: "employeeId' \<noteq> []"
    by (cases employeeId) (simp_all add: truthy_def)
  show ?thesis
  proof (cases "getVMStatus svc employeeId'")
    case (Inl error)
    from loadUserVMs_single_failed(2) [OF n Inl, of e w] assms i show ?thesis
      by (simp add: mock_inv_def)
  next
    case (Inr statusResponse)
    from loadUserVMs_single_heap [OF assms n Inr, where e = e] assms i show ?thesis
      by (simp add: mock_inv_def overlay_os)
  qed
next
  case False
  from assms have l: "0 < length (heap w)" "1 < length (heap w)"
    by (auto simp add: mock_inv_def)
  show ?thesis
  proof (cases "\<exists>vms. getAllVMs svc = Inr (Body (VmsArray vms))")
    case True
    then obtain vms where v: "getAllVMs svc = Inr (Body (VmsArray vms))" ..
    show ?thesis
    proof (cases "fst (map_convert e vms (w\<lparr>calls := calls w @ [GetAllVMs]\<rparr>))")
      case (Inl error)
      from loadUserVMs_all_thrown(2) [OF False v Inl] assms show ?thesis
        by (simp add: mock_inv_def)
    next
      case (Inr objs)
      from loadUserVMs_all_array(2) [OF False v Inr] assms l show ?thesis
        by (auto simp add: mock_inv_def nth_append)
    qed
  next
    case False
    then have "\<forall>vms. getAllVMs svc \<noteq> Inr (Body (VmsArray vms))" by simp
    from loadUserVMs_fallback(2) [OF \<open>\<not> truthy employeeId\<close> this, of e w] assms show ?thesis
      by (simp add: mock_inv_def)
  qed
qed

text \<open>
  C9, amended. A single-user call whose status request succeeds returns the references
  held by \<^verbatim>\<open>mockVMs\<close> and allocates nothing: the two objects of the module are
  overwritten where they stand, in their status, resources and uptime fields and in no
  other field, and no other object changes. The change outlives the call: a following call
  that returns \<^verbatim>\<open>mockVMs\<close> (the fallback of all-VMs mode after a failed request, a
  response that is not \<^verbatim>\<open>{vms: Array}\<close> or a record on which the mapper throws, or a
  single-user call whose status request fails) returns the same two references and finds
  the overlaid values behind them, not the literals of the source.
\<close>

theorem loadUserVMs_mutates_in_place:
  assumes "mock_inv w" and "employeeId \<noteq> []"
    and "getVMStatus svc employeeId = Inr statusResponse"
    and "(\<not> truthy employeeId2 \<and> (\<forall>vms. getAllVMs svc2 \<noteq> Inr (Body (VmsArray vms))))
       \<or> (\<not> truthy employeeId2
             \<and> (\<exists>vms. getAllVMs svc2 = Inr (Body (VmsArray vms)) \<and> \<not> list_all has_status vms))
       \<or> (\<exists>employeeId' error. employeeId2 = Some employeeId' \<and> employeeId' \<noteq> []
             \<and> getVMStatus svc2 employeeId' = Inl error)"
  shows "(let w1 = snd (loadUserVMs e svc (Some employeeId) w);
             w2 = snd (loadUserVMs e2 svc2 employeeId2 w1) in
         fst (loadUserVMs e svc (Some employeeId) w) = Inr mockVMs
       \<and> length (heap w1) = length (heap w)
       \<and> deref w1 mockVMs = map (overlay statusResponse) (deref w mockVMs)
       \<and> (\<forall>r \<in> set mockVMs.
             heap w1 ! r = (heap w ! r)\<lparr>status := status (heap w1 ! r),
               resources := resources (heap w1 ! r), uptime := uptime (heap w1 ! r)\<rparr>)
       \<and> (\<forall>r. r \<notin> set mockVMs \<longrightarrow> heap w1 ! r = heap w ! r)
       \<and> fst (loadUserVMs e2 svc2 employeeId2 w1) = Inr mockVMs
       \<and> heap w2 = heap w1
       \<and> deref w2 mockVMs = map (overlay statusResponse) (deref w mockVMs))"
proof -
  define w1 where "w1 = snd (loadUserVMs e svc (Some employeeId) w)"
  define w2 where "w2 = snd (loadUserVMs e2 svc2 employeeId2 w1)"
  note h = loadUserVMs_single_heap [OF assms(1) assms(2) assms(3), where e = e,
      folded w1_def]
  have t: "fst (loadUserVMs e2 svc2 employeeId2 w1) = Inr mockVMs
         \<and> heap (snd (loadUserVMs e2 svc2 employeeId2 w1)) = heap w1"
    if "\<not> truthy employeeId2" and "getAllVMs svc2 = Inr (Body (VmsArray vms))"
      and "\<not> list_all has_status vms" for vms
    using loadUserVMs_all_thrown(1,2) [OF that(1) that(2) map_convert_throws [OF that(3)]]
    by simp
  from assms(4) have g: "fst (loadUserVMs e2 svc2 employeeId2 w1) = Inr mockVMs"
    "heap w2 = heap w1"
    unfolding w2_def
    by (auto simp add: loadUserVMs_fallback loadUserVMs_single_failed t)
  have a: "fst (loadUserVMs e svc (Some employeeId) w) = Inr mockVMs"
    by (rule h(5))
  have b: "length (heap w1) = length (heap w)"
    by (rule h(3))
  have c: "deref w1 mockVMs = map (overlay statusResponse) (deref w mockVMs)"
    by (simp only: deref_mockVMs h(1) h(2) list.map)
  have d: "\<forall>r \<in> set mockVMs.
             heap w1 ! r = (heap w ! r)\<lparr>status := status (heap w1 ! r),
               resources := resources (heap w1 ! r), uptime := uptime (heap w1 ! r)\<rparr>"
    unfolding ball_mockVMs h(1) h(2)
    using overlay_frame [of statusResponse "heap w ! 0"]
      overlay_frame [of statusResponse "heap w ! 1"] by simp
  have f: "\<forall>r. r \<notin> set mockVMs \<longrightarrow> heap w1 ! r = heap w ! r"
    by (simp add: mockVMs_def h(4))
  have i: "fst (loadUserVMs e2 svc2 employeeId2 w1) = Inr mockVMs"
    by (rule g(1))
  have j: "heap w2 = heap w1"
    by (rule g(2))
  have k: "deref w2 mockVMs = map (overlay statusResponse) (deref w mockVMs)"
    using c by (simp add: deref_def j)
  from a b c d f i j k show ?thesis
    unfolding Let_def w1_def [symmetric] w2_def [symmetric]
    by (simp only: simp_thms)
qed

theorem loadUserVMs_mutates_in_place_witness:
  "mock_inv initial_world \<and> ''emp-001'' \<noteq> []
   \<and> getVMStatus example_service ''emp-001'' = Inr \<lparr>windows = ''Stopped'', linux = ''Running''\<rparr>
   \<and> \<not> truthy None
   \<and> getAllVMs example_service2 = Inl \<lparr>err_message = ''Network Error'', server_message = None\<rparr>
   \<and> deref initial_world mockVMs = [mock_windows, mock_linux]
   \<and> (let w1 = snd (loadUserVMs example_env example_service (Some ''emp-001'') initial_world);
          w2 = snd (loadUserVMs example_env example_service2 None w1) in
        fst (loadUserVMs example_env example_service2 None w1) = Inr mockVMs
      \<and> deref w2 mockVMs =
          [mock_windows\<lparr>status := ''Stopped'',
             resources := \<lparr>cpu = 0, memory = 0, disk = 30, network = 0\<rparr>, uptime := ''0h 0m''\<rparr>,
           mock_linux\<lparr>status := ''Running''\<rparr>]
      \<and> deref w2 mockVMs \<noteq> [mock_windows, mock_linux])"
proof -
  note f = example_single_facts
  have t: "\<not> truthy None"
    by (simp add: truthy_def)
  have g: "getAllVMs example_service2
      = Inl \<lparr>err_message = ''Network Error'', server_message = None\<rparr>"
    by (simp add: example_service2_def)
  with t have n: "(\<not> truthy None
         \<and> (\<forall>vms. getAllVMs example_service2 \<noteq> Inr (Body (VmsArray vms))))
       \<or> (\<not> truthy None
             \<and> (\<exists>vms. getAllVMs example_service2 = Inr (Body (VmsArray vms))
                   \<and> \<not> list_all has_status vms))
       \<or> (\<exists>employeeId' error. None = Some employeeId' \<and> employeeId' \<noteq> []
             \<and> getVMStatus example_service2 employeeId' = Inl error)"
    by simp
  have i: "deref initial_world mockVMs = [mock_windows, mock_linux]"
    by (simp add: deref_mockVMs initial_world_def)
  have o: "map (overlay \<lparr>windows = ''Stopped'', linux = ''Running''\<rparr>) [mock_windows, mock_linux]
      = [mock_windows\<lparr>status := ''Stopped'',
             resources := \<lparr>cpu = 0, memory = 0, disk = 30, network = 0\<rparr>, uptime := ''0h 0m''\<rparr>,
           mock_linux\<lparr>status := ''Running''\<rparr>]"
    by (simp add: overlay_def Let_def mock_windows_def mock_linux_def toLowerCase_def
        toLowerChar_def)
  have d: "[mock_windows\<lparr>status := ''Stopped'',
             resources := \<lparr>cpu = 0, memory = 0, disk = 30, network = 0\<rparr>, uptime := ''0h 0m''\<rparr>,
           mock_linux\<lparr>status := ''Running''\<rparr>] \<noteq> [mock_windows, mock_linux]"
    by (simp add: mock_windows_def mock_linux_def)
  from loadUserVMs_mutates_in_place [OF f(1) f(2) f(3) n,
      where e = example_env and ?e2.0 = example_env] i o d
  have "(let w1 = snd (loadUserVMs example_env example_service (Some ''emp-001'') initial_world);
          w2 = snd (loadUserVMs example_env example_service2 None w1) in
        fst (loadUserVMs example_env example_service2 None w1) = Inr mockVMs
      \<and> deref w2 mockVMs =
          [mock_windows\<lparr>status := ''Stopped'',
             resources := \<lparr>cpu = 0, memory = 0, disk = 30, network = 0\<rparr>, uptime := ''0h 0m''\<rparr>,
           mock_linux\<lparr>status := ''Running''\<rparr>]
      \<and> deref w2 mockVMs \<noteq> [mock_windows, mock_linux])"
    by (simp only: Let_def simp_thms)
  with f(1) f(2) f(3) t g i show ?thesis
    by (simp only: simp_thms)
qed


text \<open>
  C9 as it is stated fails on a single-user call whose status request is rejected: the
  \<^verbatim>\<open>catch\<close> notifies and returns \<^verbatim>\<open>mockVMs\<close>, and no object is written. On the initial
  data the two entries are still the literals of the source after the call.
\<close>

theorem loadUserVMs_single_failed_writes_nothing:
  "getVMStatus example_service3 ''emp-001''
     = Inl \<lparr>err_message = ''Network Error'', server_message = None\<rparr>
   \<and> fst (loadUserVMs example_env example_service3 (Some ''emp-001'') initial_world) = Inr mockVMs
   \<and> calls (snd (loadUserVMs example_env example_service3 (Some ''emp-001'') initial_world))
        = [GetVMStatus ''emp-001'']
   \<and> toasts (snd (loadUserVMs example_env example_service3 (Some ''emp-001'') initial_world))
        = [ToastError ''Error Loading VMs'' (Some ''Failed to load virtual machines.'')]
   \<and> heap (snd (loadUserVMs example_env example_service3 (Some ''emp-001'') initial_world))
        = heap initial_world
   \<and> deref (snd (loadUserVMs example_env example_service3 (Some ''emp-001'') initial_world)) mockVMs
        = [mock_windows, mock_linux]"
  by (simp add: loadUserVMs_def truthy_def example_service3_def initial_world_def Let_def
      or_else_def deref_def mockVMs_def)

section \<open>The loader: all-VMs mode\<close>

lemma loadUserVMs_never_raises: "\<exists>refs. fst (loadUserVMs e svc employeeId w) = Inr refs"
  by (simp add: loadUserVMs_def Let_def
      split: sum.splits allVMs_response.splits vms_field.splits prod.splits)

text \<open>
  C3, amended. In all-VMs mode (no \<open>employeeId\<close>, or an empty one) \<^verbatim>\<open>loadUserVMs\<close>
  always returns and never throws. When the response has the shape \<^verbatim>\<open>{vms: Array}\<close> and
  every element of the array is an object with a status string, it returns one fresh
  object for each record of the array, in order, each built by the mapper from that
  record. When an element is not such an object the mapper throws on it, and the loader
  notifies \<^verbatim>\<open>Failed to fetch VMs data\<close> and returns \<^verbatim>\<open>mockVMs\<close>. For every other
  response (in particular \<^verbatim>\<open>{}\<close>) and for a failed request it returns \<^verbatim>\<open>mockVMs\<close>,
  the two mock entries. No call in this mode writes to an object of the store.
\<close>

theorem loadUserVMs_all_VMs:
  assumes "\<not> truthy employeeId"
  shows "(\<forall>vms. getAllVMs svc = Inr (Body (VmsArray vms)) \<and> list_all has_status vms \<longrightarrow>
            (\<exists>refs. fst (loadUserVMs e svc employeeId w) = Inr refs
               \<and> length refs = length vms
               \<and> fst (map_convert e vms (w\<lparr>calls := calls w @ [GetAllVMs]\<rparr>))
                    = Inr (deref (snd (loadUserVMs e svc employeeId w)) refs)
               \<and> (\<forall>i < length vms. \<exists>wi.
                     fst (convertApiVMToAppFormat e (vms ! i) wi)
                       = Inr (heap (snd (loadUserVMs e svc employeeId w)) ! (refs ! i)))
               \<and> (\<forall>r < length (heap w).
                     heap (snd (loadUserVMs e svc employeeId w)) ! r = heap w ! r)
               \<and> toasts (snd (loadUserVMs e svc employeeId w)) = toasts w))
       \<and> (\<forall>vms. getAllVMs svc = Inr (Body (VmsArray vms)) \<and> \<not> list_all has_status vms \<longrightarrow>
            fst (loadUserVMs e svc employeeId w) = Inr mockVMs
          \<and> heap (snd (loadUserVMs e svc employeeId w)) = heap w
          \<and> toasts (snd (loadUserVMs e svc employeeId w))
               = toasts w @ [ToastError ''Failed to fetch VMs data'' None])
       \<and> ((\<forall>vms. getAllVMs svc \<noteq> Inr (Body (VmsArray vms))) \<longrightarrow>
            fst (loadUserVMs e svc employeeId w) = Inr mockVMs
          \<and> heap (snd (loadUserVMs e svc employeeId w)) = heap w
          \<and> deref (snd (loadUserVMs e svc employeeId w)) mockVMs = deref w mockVMs)
       \<and> (\<forall>error. getAllVMs svc = Inl error \<longrightarrow>
            fst (loadUserVMs e svc employeeId w) = Inr mockVMs
          \<and> heap (snd (loadUserVMs e svc employeeId w)) = heap w)
       \<and> (getAllVMs svc = Inr (Body VmsFalsy) \<longrightarrow>
            fst (loadUserVMs e svc employeeId w) = Inr mockVMs
          \<and> heap (snd (loadUserVMs e svc employeeId w)) = heap w)
       \<and> (\<exists>refs. fst (loadUserVMs e svc employeeId w) = Inr refs)"
proof (intro conjI allI impI)
  fix vms
  assume a: "getAllVMs svc = Inr (Body (VmsArray vms)) \<and> list_all has_status vms"
  define refs where "refs = [length (heap w) ..< length (heap w) + length vms]"
  from map_convert_returns [of vms e "w\<lparr>calls := calls w @ [GetAllVMs]\<rparr>"] a
  obtain objs where o: "fst (map_convert e vms (w\<lparr>calls := calls w @ [GetAllVMs]\<rparr>)) = Inr objs"
    and l: "length objs = length vms"
    and n: "\<forall>i < length vms. \<exists>wi. fst (convertApiVMToAppFormat e (vms ! i) wi) = Inr (objs ! i)"
    by blast
  from a have g: "getAllVMs svc = Inr (Body (VmsArray vms))" by simp
  note r = loadUserVMs_all_array [OF assms g o]
  have r1: "fst (loadUserVMs e svc employeeId w) = Inr refs"
    by (simp add: r(1) refs_def l)
  have k: "length refs = length vms"
    by (simp add: refs_def)
  have d: "deref (snd (loadUserVMs e svc employeeId w)) refs = objs"
    using nth_fresh [of "heap w" objs] by (simp add: deref_def r(2) refs_def l)
  have i: "\<forall>i < length vms. \<exists>wi.
             fst (convertApiVMToAppFormat e (vms ! i) wi)
               = Inr (heap (snd (loadUserVMs e svc employeeId w)) ! (refs ! i))"
  proof (intro allI impI)
    fix i
    assume b: "i < length vms"
    with d k have "heap (snd (loadUserVMs e svc employeeId w)) ! (refs ! i) = objs ! i"
      by (metis deref_def nth_map)
    with n b show "\<exists>wi. fst (convertApiVMToAppFormat e (vms ! i) wi)
               = Inr (heap (snd (loadUserVMs e svc employeeId w)) ! (refs ! i))"
      by simp
  qed
  have m: "\<forall>r < length (heap w). heap (snd (loadUserVMs e svc employeeId w)) ! r = heap w ! r"
    by (simp add: r(2) nth_append)
  have t: "toasts (snd (loadUserVMs e svc employeeId w)) = toasts w"
    by (simp add: r(3) map_convert_toasts)
  from r1 k d i m t o
  show "\<exists>refs. fst (loadUserVMs e svc employeeId w) = Inr refs
               \<and> length refs = length vms
               \<and> fst (map_convert e vms (w\<lparr>calls := calls w @ [GetAllVMs]\<rparr>))
                    = Inr (deref (snd (loadUserVMs e svc employeeId w)) refs)
               \<and> (\<forall>i < length vms. \<exists>wi.
                     fst (convertApiVMToAppFormat e (vms ! i) wi)
                       = Inr (heap (snd (loadUserVMs e svc employeeId w)) ! (refs ! i)))
               \<and> (\<forall>r < length (heap w).
                     heap (snd (loadUserVMs e svc employeeId w)) ! r = heap w ! r)
               \<and> toasts (snd (loadUserVMs e svc employeeId w)) = toasts w"
    by (intro exI [of _ refs] conjI) simp_all
next
  fix vms
  assume a: "getAllVMs svc = Inr (Body (VmsArray vms)) \<and> \<not> list_all has_status vms"
  then have g: "getAllVMs svc = Inr (Body (VmsArray vms))" and n: "\<not> list_all has_status vms"
    by simp_all
  note r = loadUserVMs_all_thrown [OF assms g
      map_convert_throws [OF n, of e "w\<lparr>calls := calls w @ [GetAllVMs]\<rparr>"]]
  show "fst (loadUserVMs e svc employeeId w) = Inr mockVMs"
    by (rule r(1))
  show "heap (snd (loadUserVMs e svc employeeId w)) = heap w"
    by (rule r(2))
  show "toasts (snd (loadUserVMs e svc employeeId w))
               = toasts w @ [ToastError ''Failed to fetch VMs data'' None]"
    by (simp add: r(3) map_convert_toasts)
next
  assume a: "\<forall>vms. getAllVMs svc \<noteq> Inr (Body (VmsArray vms))"
  note g = loadUserVMs_fallback [OF assms a, where e = e and w = w]
  show "fst (loadUserVMs e svc employeeId w) = Inr mockVMs"
    by (rule g(1))
  show "heap (snd (loadUserVMs e svc employeeId w)) = heap w"
    by (rule g(2))
  show "deref (snd (loadUserVMs e svc employeeId w)) mockVMs = deref w mockVMs"
    by (simp add: deref_def g(2))
next
  fix error
  assume "getAllVMs svc = Inl error"
  then have a: "\<forall>vms. getAllVMs svc \<noteq> Inr (Body (VmsArray vms))"
    by simp
  note g = loadUserVMs_fallback [OF assms a, where e = e and w = w]
  show "fst (loadUserVMs e svc employeeId w) = Inr mockVMs"
    by (rule g(1))
  show "heap (snd (loadUserVMs e svc employeeId w)) = heap w"
    by (rule g(2))
next
  assume "getAllVMs svc = Inr (Body VmsFalsy)"
  then have a: "\<forall>vms. getAllVMs svc \<noteq> Inr (Body (VmsArray vms))"
    by simp
  note g = loadUserVMs_fallback [OF assms a, where e = e and w = w]
  show "fst (loadUserVMs e svc employeeId w) = Inr mockVMs"
    by (rule g(1))
  show "heap (snd (loadUserVMs e svc employeeId w)) = heap w"
    by (rule g(2))
next
  show "\<exists>refs. fst (loadUserVMs e svc employeeId w) = Inr refs"
    by (rule loadUserVMs_never_raises)
qed

lemma example_list_facts:
  "\<not> truthy None"
  "getAllVMs example_service = Inr (Body VmsFalsy)"
  "getAllVMs example_service2 = Inl \<lparr>err_message = ''Network Error'', server_message = None\<rparr>"
  "getAllVMs example_service3
     = Inr (Body (VmsArray [Object example_running, Object example_stopped]))"
  "list_all has_status [Object example_running, Object example_stopped]"
  "getAllVMs example_service4 = Inr (Body (VmsArray [Object example_no_status]))"
  "\<not> list_all has_status [Object example_no_status]"
  "deref initial_world mockVMs = [mock_windows, mock_linux]"
  by (simp_all add: truthy_def example_service_def example_service2_def example_service3_def
      example_service4_def has_status_def example_running_def example_stopped_def
      example_no_status_def deref_def mockVMs_def initial_world_def)

theorem loadUserVMs_all_VMs_witness:
  "\<not> truthy None
   \<and> getAllVMs example_service = Inr (Body VmsFalsy)
   \<and> fst (loadUserVMs example_env example_service None initial_world) = Inr mockVMs
   \<and> deref (snd (loadUserVMs example_env example_service None initial_world)) mockVMs
        = [mock_windows, mock_linux]
   \<and> getAllVMs example_service2 = Inl \<lparr>err_message = ''Network Error'', server_message = None\<rparr>
   \<and> fst (loadUserVMs example_env example_service2 None initial_world) = Inr mockVMs
   \<and> deref (snd (loadUserVMs example_env example_service2 None initial_world)) mockVMs
        = [mock_windows, mock_linux]
   \<and> getAllVMs example_service3
        = Inr (Body (VmsArray [Object example_running, Object example_stopped]))
   \<and> list_all has_status [Object example_running, Object example_stopped]
   \<and> (\<exists>refs. fst (loadUserVMs example_env example_service3 None initial_world) = Inr refs
         \<and> length refs = 2
         \<and> toasts (snd (loadUserVMs example_env example_service3 None initial_world)) = [])
   \<and> fst (loadUserVMs example_env example_service3 None initial_world) = Inr [2, 3]
   \<and> map status (deref (snd (loadUserVMs example_env example_service3 None initial_world)) [2, 3])
        = [''Running'', ''Stopped'']
   \<and> getAllVMs example_service4 = Inr (Body (VmsArray [Object example_no_status]))
   \<and> \<not> list_all has_status [Object example_no_status]
   \<and> fst (loadUserVMs example_env example_service4 None initial_world) = Inr mockVMs
   \<and> toasts (snd (loadUserVMs example_env example_service4 None initial_world))
        = [ToastError ''Failed to fetch VMs data'' None]"
proof -
  note f = example_list_facts
  note a = loadUserVMs_all_VMs [OF f(1), of example_service example_env initial_world]
  note b = loadUserVMs_all_VMs [OF f(1), of example_service2 example_env initial_world]
  note c = loadUserVMs_all_VMs [OF f(1), of example_service3 example_env initial_world]
  note d = loadUserVMs_all_VMs [OF f(1), of example_service4 example_env initial_world]
  from a f(2) f(8)
  have a1: "fst (loadUserVMs example_env example_service None initial_world) = Inr mockVMs"
    and a2: "deref (snd (loadUserVMs example_env example_service None initial_world)) mockVMs
        = [mock_windows, mock_linux]"
    by (simp_all add: deref_def)
  from b f(3) f(8)
  have b1: "fst (loadUserVMs example_env example_service2 None initial_world) = Inr mockVMs"
    and b2: "deref (snd (loadUserVMs example_env example_service2 None initial_world)) mockVMs
        = [mock_windows, mock_linux]"
    by (simp_all add: deref_def)
  from c f(4) f(5)
  have c0: "\<exists>refs. fst (loadUserVMs example_env example_service3 None initial_world) = Inr refs
         \<and> length refs = 2
         \<and> toasts (snd (loadUserVMs example_env example_service3 None initial_world)) = []"
    by (auto simp add: initial_world_def)
  have c1: "fst (loadUserVMs example_env example_service3 None initial_world) = Inr [2, 3]"
    by (simp add: loadUserVMs_def truthy_def example_service3_def Let_def
        convertApiVMToAppFormat_def example_running_def example_stopped_def initial_world_def
        upt_rec)
  have c2: "map status (deref (snd (loadUserVMs example_env example_service3 None initial_world)) [2, 3])
        = [''Running'', ''Stopped'']"
    by (simp add: loadUserVMs_def truthy_def example_service3_def Let_def deref_def
        convertApiVMToAppFormat_def normalizeVMStatus_def example_running_def
        example_stopped_def initial_world_def toLowerCase_def toLowerChar_def)
  from d f(6) f(7)
  have d1: "fst (loadUserVMs example_env example_service4 None initial_world) = Inr mockVMs"
    and d2: "toasts (snd (loadUserVMs example_env example_service4 None initial_world))
        = [ToastError ''Failed to fetch VMs data'' None]"
    by (simp_all add: initial_world_def)
  from f(1) f(2) f(3) f(4) f(5) f(6) f(7) a1 a2 b1 b2 c0 c1 c2 d1 d2 show ?thesis
    by (simp only: simp_thms)
qed

text \<open>
  C3 as it is stated fails on a response of the shape \<^verbatim>\<open>{vms: Array}\<close> whose array
  holds a record without a \<^verbatim>\<open>status\<close>: the mapper throws on the record, inside the
  inner \<^verbatim>\<open>try\<close>, and the loader returns the two mock entries, not a mapped list of
  one element.
\<close>

theorem loadUserVMs_all_VMs_mapper_throws:
  "getAllVMs example_service4 = Inr (Body (VmsArray [Object example_no_status]))
   \<and> fst (convertApiVMToAppFormat example_env (Object example_no_status)
          (initial_world\<lparr>calls := [GetAllVMs]\<rparr>)) = Inl TypeError
   \<and> fst (loadUserVMs example_env example_service4 None initial_world) = Inr [0, 1]
   \<and> deref (snd (loadUserVMs example_env example_service4 None initial_world)) [0, 1]
        = [mock_windows, mock_linux]
   \<and> toasts (snd (loadUserVMs example_env example_service4 None initial_world))
        = [ToastError ''Failed to fetch VMs data'' None]"
  by (simp add: loadUserVMs_def truthy_def example_service4_def Let_def deref_def mockVMs_def
      convertApiVMToAppFormat_def example_no_status_def initial_world_def)

end
